theory Spec2Isabelle
  imports Main
begin

section \<open>Data model\<close>

text \<open>
  The repository holds two versions of the scheduled notifier \<^verbatim>\<open>src/index.ts\<close>.
  The first one notifies about the second latest feed item once the latest one is fresh
  (``Policy A''); the second one scans the whole feed and notifies about every fresh item
  (``Policy B''). Definitions of the first version keep the names of the source; those of
  the second version carry the suffix \<open>_v2\<close>.

  JavaScript strings are modelled as \<open>string\<close>. Text outside ASCII is written as its
  UTF-8 bytes; the only operation of the source that depends on the length of a string
  (\<^verbatim>\<open>padStart\<close>) is applied to strings of ASCII digits. An optional property of an
  object is an \<open>option\<close>. A \<^verbatim>\<open>Date\<close> is its time value, the number of milliseconds
  since 1970-01-01T00:00:00Z; an invalid \<^verbatim>\<open>Date\<close> (time value NaN) is \<open>None\<close>.
\<close>

type_synonym instant = int

text \<open>\<^verbatim>\<open>Parser.Item\<close>, restricted to the properties the handlers read.\<close>

record RssItem =
  title :: "string option"
  link :: "string option"
  pubDate :: "string option"

text \<open>\<^verbatim>\<open>process.env\<close>.\<close>

type_synonym env = "string \<rightharpoonup> string"

record Config =
  topicArn :: string
  region :: string

record Config_v2 = Config +
  key :: string

text \<open>A thrown value.\<close>

datatype exn =
  Error string
  | FeedFailure string
  | SnsFailure string

text \<open>The input of a \<^verbatim>\<open>PublishCommand\<close>.\<close>

record PublishInput =
  TopicArn :: string
  Subject :: string
  Message :: string

text \<open>
  What an invocation does to the outside world, in order: the feed request and the
  publish calls, each with its outcome.
\<close>

datatype event =
  ParseURL string
  | PublishOk PublishInput
  | PublishFailed PublishInput

text \<open>
  An \<^verbatim>\<open>SNSClient\<close>: whether \<^verbatim>\<open>client.send\<close> rejects, and with what, may depend on
  everything that happened before the call. The SDK maps a region to a client.
\<close>

type_synonym SNSClient = "event list \<Rightarrow> PublishInput \<Rightarrow> exn option"

type_synonym outcome = "event list \<times> (exn + unit)"

section \<open>Constants and string helpers\<close>

definition RSS_URL :: string where
  "RSS_URL = ''https://mgpk-cdn.magazinepocket.com/static/rss/2620/feed.xml''"

definition DEFAULT_REGION :: string where
  "DEFAULT_REGION = ''ap-northeast-1''"

text \<open>The literal texts of the message, as UTF-8.\<close>

definition announceLine :: string where
  "announceLine = [CHR 0xE3, CHR 0x80, CHR 0x8E, CHR 0xE3, CHR 0x81, CHR 0xBF, CHR 0xE3, CHR 0x81, CHR 0x84,
     CHR 0xE3, CHR 0x81, CHR 0xA1, CHR 0xE3, CHR 0x82, CHR 0x83, CHR 0xE3, CHR 0x82, CHR 0x93,
     CHR 0xE3, CHR 0x81, CHR 0xA8, CHR 0xE5, CHR 0xB1, CHR 0xB1, CHR 0xE7, CHR 0x94, CHR 0xB0,
     CHR 0xE3, CHR 0x81, CHR 0x95, CHR 0xE3, CHR 0x82, CHR 0x93, CHR 0xE3, CHR 0x80, CHR 0x8F,
     CHR 0xE3, CHR 0x81, CHR 0x8C, CHR 0xE5, CHR 0x85, CHR 0xAC, CHR 0xE9, CHR 0x96, CHR 0x8B,
     CHR 0xE3, CHR 0x81, CHR 0x95, CHR 0xE3, CHR 0x82, CHR 0x8C, CHR 0xE3, CHR 0x81, CHR 0xBE,
     CHR 0xE3, CHR 0x81, CHR 0x97, CHR 0xE3, CHR 0x81, CHR 0x9F, CHR 0xEF, CHR 0xBC, CHR 0x81]"

definition detailsHeader :: string where
  "detailsHeader = [CHR 0xE8, CHR 0xA9, CHR 0xB3, CHR 0xE7, CHR 0xB4, CHR 0xB0,
     CHR 0xE6, CHR 0x83, CHR 0x85, CHR 0xE5, CHR 0xA0, CHR 0xB1]"

definition titlePrefix :: string where
  "titlePrefix = ''- '' @ [CHR 0xE3, CHR 0x82, CHR 0xBF, CHR 0xE3, CHR 0x82, CHR 0xA4,
     CHR 0xE3, CHR 0x83, CHR 0x88, CHR 0xE3, CHR 0x83, CHR 0xAB] @ '': ''"

definition datePrefix :: string where
  "datePrefix = ''- '' @ [CHR 0xE9, CHR 0x85, CHR 0x8D, CHR 0xE4, CHR 0xBF, CHR 0xA1,
     CHR 0xE6, CHR 0x97, CHR 0xA5] @ '': ''"

definition urlPrefix :: string where
  "urlPrefix = ''- URL: ''"

definition NO_TITLE :: string where
  "NO_TITLE = [CHR 0xE3, CHR 0x82, CHR 0xBF, CHR 0xE3, CHR 0x82, CHR 0xA4, CHR 0xE3, CHR 0x83, CHR 0x88,
     CHR 0xE3, CHR 0x83, CHR 0xAB, CHR 0xE3, CHR 0x81, CHR 0xAA, CHR 0xE3, CHR 0x81, CHR 0x97]"

definition NO_URL :: string where
  "NO_URL = ''URL'' @ [CHR 0xE3, CHR 0x81, CHR 0xAA, CHR 0xE3, CHR 0x81, CHR 0x97]"

definition SUBJECT :: string where
  "SUBJECT = [CHR 0xE9, CHR 0x85, CHR 0x8D, CHR 0xE4, CHR 0xBF, CHR 0xA1, CHR 0xE4, CHR 0xBA, CHR 0x88,
     CHR 0xE5, CHR 0xAE, CHR 0x9A] @ '': '' @
     [CHR 0xE3, CHR 0x80, CHR 0x8E, CHR 0xE3, CHR 0x81, CHR 0xBF, CHR 0xE3, CHR 0x81, CHR 0x84,
      CHR 0xE3, CHR 0x81, CHR 0xA1, CHR 0xE3, CHR 0x82, CHR 0x83, CHR 0xE3, CHR 0x82, CHR 0x93,
      CHR 0xE3, CHR 0x81, CHR 0xA8, CHR 0xE5, CHR 0xB1, CHR 0xB1, CHR 0xE7, CHR 0x94, CHR 0xB0,
      CHR 0xE3, CHR 0x81, CHR 0x95, CHR 0xE3, CHR 0x82, CHR 0x93, CHR 0xE3, CHR 0x80, CHR 0x8F]"

text \<open>
  \<^verbatim>\<open>!x\<close> for an optional string: true when the value is undefined or the empty string.
\<close>

definition falsy :: "string option \<Rightarrow> bool" where
  "falsy x = (case x of None \<Rightarrow> True | Some s \<Rightarrow> s = [])"

text \<open>\<^verbatim>\<open>x || d\<close> and \<^verbatim>\<open>x ?? d\<close> for an optional string \<open>x\<close>.\<close>

definition or_else :: "string option \<Rightarrow> string \<Rightarrow> string" where
  "or_else x d = (case x of None \<Rightarrow> d | Some s \<Rightarrow> if s = [] then d else s)"

definition nullish_else :: "string option \<Rightarrow> string \<Rightarrow> string" where
  "nullish_else x d = (case x of None \<Rightarrow> d | Some s \<Rightarrow> s)"

text \<open>\<^verbatim>\<open>s.padStart(n, pad)\<close>.\<close>

definition padStart :: "nat \<Rightarrow> string \<Rightarrow> string \<Rightarrow> string" where
  "padStart n pad s =
     (if n \<le> length s \<or> pad = [] then s
      else take (n - length s) (concat (replicate (n - length s) pad)) @ s)"

text \<open>\<^verbatim>\<open>xs.join(sep)\<close>.\<close>

fun join :: "string \<Rightarrow> string list \<Rightarrow> string" where
  "join sep [] = []"
| "join sep [x] = x"
| "join sep (x # y # ys) = x @ sep @ join sep (y # ys)"

section \<open>Configuration\<close>

definition getConfigFromEnv :: "env \<Rightarrow> exn + Config" where
  "getConfigFromEnv e =
     (let TOPIC_ARN = e ''TOPIC_ARN''; AWS_REGION = e ''AWS_REGION'' in
      if falsy TOPIC_ARN then Inl (Error ''Missing environment variables: TOPIC_ARN'')
      else Inr \<lparr>topicArn = the TOPIC_ARN, region = nullish_else AWS_REGION DEFAULT_REGION\<rparr>)"

definition getConfigFromEnv_v2 :: "env \<Rightarrow> exn + Config_v2" where
  "getConfigFromEnv_v2 e =
     (let KEY = e ''KEY''; TOPIC_ARN = e ''TOPIC_ARN''; AWS_REGION = e ''AWS_REGION'' in
      if falsy KEY \<or> falsy TOPIC_ARN
      then Inl (Error ''Missing environment variables: KEY or TOPIC_ARN'')
      else Inr \<lparr>topicArn = the TOPIC_ARN, region = nullish_else AWS_REGION DEFAULT_REGION,
                key = the KEY\<rparr>)"

definition createSnsClient :: "(string \<Rightarrow> SNSClient) \<Rightarrow> string \<Rightarrow> SNSClient" where
  "createSnsClient sdk r = sdk r"

section \<open>Publishing\<close>

text \<open>
  \<^verbatim>\<open>sendMessage\<close> of both versions: the call is made once; a rejection is thrown again
  unchanged. The first argument is the trace of the invocation so far.
\<close>

definition sendMessage :: "SNSClient \<Rightarrow> event list \<Rightarrow> string \<Rightarrow> string \<Rightarrow> string \<Rightarrow> outcome" where
  "sendMessage client tr topic subject message =
     (let input = \<lparr>TopicArn = topic, Subject = subject, Message = message\<rparr> in
      case client tr input of
        None \<Rightarrow> (tr @ [PublishOk input], Inr ())
      | Some err \<Rightarrow> (tr @ [PublishFailed input], Inl err))"

section \<open>The platform's date formatter\<close>

text \<open>
  \<^verbatim>\<open>Intl.DateTimeFormat\<close> belongs to the runtime, not to the repository. The first
  version builds one formatter for the locale \<^verbatim>\<open>ja-JP\<close> and the time zone
  \<^verbatim>\<open>Asia/Tokyo\<close> with a numeric year, two-digit month, day, hour and minute and
  \<^verbatim>\<open>hour12: false\<close>, and reads the parts of its output. This section models that
  formatter: the offset of \<^verbatim>\<open>Asia/Tokyo\<close> from UTC as the time zone database has
  it, the fields of the proleptic Gregorian calendar, and the parts of the pattern
  \<^verbatim>\<open>y/MM/dd HH:mm\<close>.
\<close>

text \<open>
  The offset of \<^verbatim>\<open>Asia/Tokyo\<close> in milliseconds: local mean time (+9:18:59) until
  1887-12-31T15:00Z, daylight saving time (+10:00) in the summers of 1948 to 1951, and
  +9:00 otherwise.
\<close>

definition tokyoOffsetMs :: "instant \<Rightarrow> int" where
  "tokyoOffsetMs t =
     (if t < -2587712400000 then 33539000
      else if (-683802000000 \<le> t \<and> t < -672310800000)
            \<or> (-654771600000 \<le> t \<and> t < -640861200000)
            \<or> (-620298000000 \<le> t \<and> t < -609411600000)
            \<or> (-588848400000 \<le> t \<and> t < -577962000000) then 36000000
      else 32400000)"

text \<open>
  The calendar counts days from 0000-03-01, so that a leap day is the last day of its
  year: 400 years have 146097 days, 100 years 36524, 4 years 1461. \<open>marchYearDay z\<close> is
  the year that begins in March and the day within it, for the day \<open>z\<close> days after
  0000-03-01.
\<close>

definition marchYearDay :: "int \<Rightarrow> int \<times> int" where
  "marchYearDay z =
     (let era = z div 146097;
          doe = z mod 146097;
          c = min 3 (doe div 36524);
          r1 = doe - c * 36524;
          q = r1 div 1461;
          r2 = r1 mod 1461;
          a = min 3 (r2 div 365)
      in (era * 400 + c * 100 + q * 4 + a, r2 - a * 365))"

text \<open>Month and day of the month for a day of a year that begins in March.\<close>

definition monthDay :: "int \<Rightarrow> int \<times> int" where
  "monthDay doy =
     (let mp = (5 * doy + 2) div 153
      in (if mp < 10 then mp + 3 else mp - 9, doy - (153 * mp + 2) div 5 + 1))"

text \<open>Year, month and day of the day that is \<open>n\<close> days after 1970-01-01.\<close>

definition civilFromDays :: "int \<Rightarrow> int \<times> int \<times> int" where
  "civilFromDays n =
     (let yd = marchYearDay (n + 719468);
          md = monthDay (snd yd)
      in (fst yd + (if fst md \<le> 2 then 1 else 0), fst md, snd md))"

text \<open>The local time of an instant in \<^verbatim>\<open>Asia/Tokyo\<close>, and its fields.\<close>

definition tokyoLocalMs :: "instant \<Rightarrow> int" where
  "tokyoLocalMs t = t + tokyoOffsetMs t"

definition tokyoYear :: "instant \<Rightarrow> int" where
  "tokyoYear t = fst (civilFromDays (tokyoLocalMs t div 86400000))"

definition tokyoMonth :: "instant \<Rightarrow> int" where
  "tokyoMonth t = fst (snd (civilFromDays (tokyoLocalMs t div 86400000)))"

definition tokyoDay :: "instant \<Rightarrow> int" where
  "tokyoDay t = snd (snd (civilFromDays (tokyoLocalMs t div 86400000)))"

definition tokyoHour :: "instant \<Rightarrow> int" where
  "tokyoHour t = tokyoLocalMs t div 3600000 mod 24"

definition tokyoMinute :: "instant \<Rightarrow> int" where
  "tokyoMinute t = tokyoLocalMs t div 60000 mod 60"

text \<open>Decimal digits.\<close>

definition digit :: "nat \<Rightarrow> char" where
  "digit n = ''0123456789'' ! (n mod 10)"

fun decimal :: "nat \<Rightarrow> string" where
  "decimal n = (if n < 10 then [digit n] else decimal (n div 10) @ [digit n])"

declare decimal.simps [simp del]

text \<open>
  A field formatted as \<^verbatim>\<open>numeric\<close>: all its digits. A year that is not positive is
  counted in the era before the first year.
\<close>

definition numericYear :: "int \<Rightarrow> string" where
  "numericYear y = decimal (nat (if y \<le> 0 then 1 - y else y))"

text \<open>A field formatted as \<^verbatim>\<open>2-digit\<close>: its last two digits.\<close>

definition twoDigit :: "int \<Rightarrow> string" where
  "twoDigit v = [digit (nat v div 10), digit (nat v)]"

text \<open>A part of the formatted output: its type and its value.\<close>

type_synonym DateTimeFormatPart = "string \<times> string"

definition formatToParts :: "instant \<Rightarrow> DateTimeFormatPart list" where
  "formatToParts t =
     [(''year'', numericYear (tokyoYear t)), (''literal'', ''/''),
      (''month'', twoDigit (tokyoMonth t)), (''literal'', ''/''),
      (''day'', twoDigit (tokyoDay t)), (''literal'', '' ''),
      (''hour'', twoDigit (tokyoHour t)), (''literal'', '':''),
      (''minute'', twoDigit (tokyoMinute t))]"

section \<open>Composer, first version\<close>

text \<open>A template literal renders an undefined value as the text \<^verbatim>\<open>undefined\<close>.\<close>

definition template :: "string option \<Rightarrow> string" where
  "template x = (case x of None \<Rightarrow> ''undefined'' | Some s \<Rightarrow> s)"

definition formatJstDateTime :: "instant \<Rightarrow> string" where
  "formatJstDateTime date =
     (let parts = foldl (\<lambda>acc p. if fst p \<noteq> ''literal'' then acc(fst p \<mapsto> snd p) else acc)
                    Map.empty (formatToParts date);
          yyyy = parts ''year'';
          mm = parts ''month'';
          dd = parts ''day'';
          hh = padStart 2 ''0'' (nullish_else (parts ''hour'') []);
          min = padStart 2 ''0'' (nullish_else (parts ''minute'') [])
      in template yyyy @ ''/'' @ template mm @ ''/'' @ template dd @ '' '' @ hh @ '':'' @ min
           @ '' (JST)'')"

definition buildMessage :: "string \<Rightarrow> instant \<Rightarrow> string \<Rightarrow> string" where
  "buildMessage ttl date url =
     join [CHR 0x0A]
       [announceLine,
        [],
        detailsHeader,
        titlePrefix @ ttl,
        datePrefix @ formatJstDateTime date,
        urlPrefix @ url]"

section \<open>Selector, first version\<close>

text \<open>
  \<open>now\<close> is the value of \<^verbatim>\<open>Date.now()\<close>, which each handler reads once in an invocation,
  after the feed request.
\<close>

definition getCutoffDate :: "instant \<Rightarrow> int \<Rightarrow> instant" where
  "getCutoffDate now hours = now - hours * 60 * 60 * 1000"

text \<open>
  \<^verbatim>\<open>new Date(text)\<close> is the runtime's parser of date texts, a parameter of the model:
  \<open>None\<close> is an invalid date.
\<close>

definition requirePubDate :: "(string \<Rightarrow> instant option) \<Rightarrow> RssItem \<Rightarrow> instant option" where
  "requirePubDate newDate item =
     (if falsy (pubDate item) then None
      else newDate (the (pubDate item)))"

definition getItemDisplay :: "RssItem \<Rightarrow> string \<times> string" where
  "getItemDisplay item = (or_else (title item) NO_TITLE, or_else (link item) NO_URL)"

text \<open>
  \<^verbatim>\<open>fetchFeedItems\<close>: the outcome of \<^verbatim>\<open>parser.parseURL(RSS_URL)\<close> is a parameter of
  the model, either a thrown value or the items of the feed.
\<close>

definition fetchFeedItems :: "(exn + RssItem list) \<Rightarrow> event list \<times> (exn + RssItem list)" where
  "fetchFeedItems feed = ([ParseURL RSS_URL], feed)"

definition handler ::
  "env \<Rightarrow> (string \<Rightarrow> SNSClient) \<Rightarrow> (exn + RssItem list) \<Rightarrow> (string \<Rightarrow> instant option)
     \<Rightarrow> instant \<Rightarrow> outcome" where
  "handler e sdk feed newDate now =
     (case getConfigFromEnv e of
        Inl err \<Rightarrow> ([], Inl err)
      | Inr cfg \<Rightarrow>
          let sns = createSnsClient sdk (region cfg) in
          (case fetchFeedItems feed of
             (tr, Inl err) \<Rightarrow> (tr, Inl err)
           | (tr, Inr items) \<Rightarrow>
               if length items = 0 then (tr, Inr ())
               else
                 (case requirePubDate newDate (items ! 0) of
                    None \<Rightarrow> (tr, Inr ())
                  | Some latestPubDate \<Rightarrow>
                      let cutoff = getCutoffDate now 24 in
                      if latestPubDate \<le> cutoff then (tr, Inr ())
                      else if length items < 2 then (tr, Inr ())
                      else
                        (case requirePubDate newDate (items ! 1) of
                           None \<Rightarrow> (tr, Inr ())
                         | Some secondLatestPubDate \<Rightarrow>
                             let (ttl, url) = getItemDisplay (items ! 1);
                                 msg = buildMessage ttl secondLatestPubDate url
                             in sendMessage sns tr (topicArn cfg) SUBJECT msg))))"

section \<open>Second version\<close>

text \<open>
  The second version formats each field with a formatter of its own, built for the locale
  \<^verbatim>\<open>ja-JP\<close> and the time zone \<^verbatim>\<open>Asia/Tokyo\<close> with that one field, and pastes the five
  formatted texts together. \<open>fmt f date\<close> is the text that the formatter of field \<open>f\<close>
  gives for \<open>date\<close>. The composer and the handler take the five formatters as an argument;
  the formatters of the runtime are \<open>formatField\<close>.
\<close>

datatype field = Year | Month | Day | Hour | Minute

text \<open>
  The runtime's formatter for a single field. The Japanese pattern for a year, a month, a
  day or an hour alone puts the unit after the digits: the characters U+5E74 after the
  numeric year, U+6708 after the two-digit month, U+65E5 after the two-digit day and
  U+6642 after the two-digit hour of the 24-hour clock. The pattern for a minute alone
  has no unit, and prints the minute with all its digits and no padding, also when two
  digits are asked for.
\<close>

definition formatField :: "field \<Rightarrow> instant \<Rightarrow> string" where
  "formatField f t =
     (case f of
        Year \<Rightarrow> numericYear (tokyoYear t) @ [CHR 0xE5, CHR 0xB9, CHR 0xB4]
      | Month \<Rightarrow> twoDigit (tokyoMonth t) @ [CHR 0xE6, CHR 0x9C, CHR 0x88]
      | Day \<Rightarrow> twoDigit (tokyoDay t) @ [CHR 0xE6, CHR 0x97, CHR 0xA5]
      | Hour \<Rightarrow> twoDigit (tokyoHour t) @ [CHR 0xE6, CHR 0x99, CHR 0x82]
      | Minute \<Rightarrow> decimal (nat (tokyoMinute t)))"

definition formatJstDateTime_v2 :: "(field \<Rightarrow> instant \<Rightarrow> string) \<Rightarrow> instant \<Rightarrow> string" where
  "formatJstDateTime_v2 fmt date =
     (let yyyy = fmt Year date;
          mm = fmt Month date;
          dd = fmt Day date;
          hh = fmt Hour date;
          min = fmt Minute date
      in yyyy @ ''/'' @ mm @ ''/'' @ dd @ '' '' @ hh @ '':'' @ min @ '' (JST)'')"

definition buildMessage_v2 :: "(field \<Rightarrow> instant \<Rightarrow> string) \<Rightarrow> string \<Rightarrow> instant \<Rightarrow> string" where
  "buildMessage_v2 fmt ttl date =
     join [CHR 0x0A]
       [announceLine,
        [],
        detailsHeader,
        titlePrefix @ ttl,
        datePrefix @ formatJstDateTime_v2 fmt date]"

text \<open>
  The loop of the second handler over the items that are left, from the trace so far. A
  rejected publish call leaves the loop with the thrown value.
\<close>

fun forItems_v2 ::
  "SNSClient \<Rightarrow> Config_v2 \<Rightarrow> (field \<Rightarrow> instant \<Rightarrow> string) \<Rightarrow> (string \<Rightarrow> instant option)
     \<Rightarrow> instant \<Rightarrow> event list \<Rightarrow> RssItem list \<Rightarrow> outcome" where
  "forItems_v2 sns cfg fmt newDate yesterday tr [] = (tr, Inr ())"
| "forItems_v2 sns cfg fmt newDate yesterday tr (item # rest) =
     (if falsy (pubDate item) then forItems_v2 sns cfg fmt newDate yesterday tr rest
      else
        (case newDate (the (pubDate item)) of
           None \<Rightarrow> forItems_v2 sns cfg fmt newDate yesterday tr rest
         | Some d \<Rightarrow>
             if d > yesterday then
               (let msg = buildMessage_v2 fmt (or_else (title item) NO_TITLE) d in
                case sendMessage sns tr (topicArn cfg) SUBJECT msg of
                  (tr', Inl err) \<Rightarrow> (tr', Inl err)
                | (tr', Inr u) \<Rightarrow> forItems_v2 sns cfg fmt newDate yesterday tr' rest)
             else forItems_v2 sns cfg fmt newDate yesterday tr rest))"

definition handler_v2 ::
  "env \<Rightarrow> (string \<Rightarrow> SNSClient) \<Rightarrow> (field \<Rightarrow> instant \<Rightarrow> string) \<Rightarrow> (exn + RssItem list)
     \<Rightarrow> (string \<Rightarrow> instant option) \<Rightarrow> instant \<Rightarrow> outcome" where
  "handler_v2 e sdk fmt feed newDate now =
     (case getConfigFromEnv_v2 e of
        Inl err \<Rightarrow> ([], Inl err)
      | Inr cfg \<Rightarrow>
          let sns = createSnsClient sdk (region cfg) in
          (case feed of
             Inl err \<Rightarrow> ([ParseURL RSS_URL], Inl err)
           | Inr items \<Rightarrow>
               let yesterday = now - 24 * 60 * 60 * 1000 in
               forItems_v2 sns cfg fmt newDate yesterday [ParseURL RSS_URL] items))"

section \<open>Reading a trace\<close>

text \<open>The publish calls of a trace, and those that went through.\<close>

fun publishCalls :: "event list \<Rightarrow> PublishInput list" where
  "publishCalls [] = []"
| "publishCalls (ParseURL u # es) = publishCalls es"
| "publishCalls (PublishOk i # es) = i # publishCalls es"
| "publishCalls (PublishFailed i # es) = i # publishCalls es"

fun published :: "event list \<Rightarrow> PublishInput list" where
  "published [] = []"
| "published (ParseURL u # es) = published es"
| "published (PublishOk i # es) = i # published es"
| "published (PublishFailed i # es) = published es"

section \<open>The selection the specification describes\<close>

text \<open>
  The entries that the second policy is said to notify about: those with a usable publish
  timestamp strictly after the cutoff, in the order of the feed, each with its timestamp.
\<close>

definition freshItems ::
  "(string \<Rightarrow> instant option) \<Rightarrow> instant \<Rightarrow> RssItem list \<Rightarrow> (RssItem \<times> instant) list" where
  "freshItems newDate cutoff items =
     List.map_filter
       (\<lambda>item. case requirePubDate newDate item of
                 None \<Rightarrow> None
               | Some d \<Rightarrow> if cutoff < d then Some (item, d) else None)
       items"

text \<open>The publish call that the second version makes for an entry and its timestamp.\<close>

definition notification_v2 ::
  "Config_v2 \<Rightarrow> (field \<Rightarrow> instant \<Rightarrow> string) \<Rightarrow> RssItem \<times> instant \<Rightarrow> PublishInput" where
  "notification_v2 cfg fmt p =
     \<lparr>TopicArn = topicArn cfg, Subject = SUBJECT,
      Message = buildMessage_v2 fmt (or_else (title (fst p)) NO_TITLE) (snd p)\<rparr>"


text \<open>
  The rendering the specification asks of the composer: the instant moved to UTC+9, and a
  number as exactly \<open>w\<close> decimal digits, padded with zeros on the left.
\<close>

definition utcPlus9 :: "instant \<Rightarrow> int" where
  "utcPlus9 t = t + 9 * 60 * 60 * 1000"

primrec zeroPadded :: "nat \<Rightarrow> nat \<Rightarrow> string" where
  "zeroPadded 0 n = []"
| "zeroPadded (Suc w) n = zeroPadded w (n div 10) @ [digit n]"


definition jstYear :: "instant \<Rightarrow> int" where
  "jstYear t = fst (civilFromDays (utcPlus9 t div 86400000))"

definition jstMonth :: "instant \<Rightarrow> int" where
  "jstMonth t = fst (snd (civilFromDays (utcPlus9 t div 86400000)))"

definition jstDay :: "instant \<Rightarrow> int" where
  "jstDay t = snd (snd (civilFromDays (utcPlus9 t div 86400000)))"

definition jstHour :: "instant \<Rightarrow> int" where
  "jstHour t = utcPlus9 t div 3600000 mod 24"

definition jstMinute :: "instant \<Rightarrow> int" where
  "jstMinute t = utcPlus9 t div 60000 mod 60"

text \<open>
  The proleptic Gregorian calendar as it is taught: every fourth year is a leap year,
  except the hundreds that are not a multiple of 400; the months have their lengths; the
  number of a date is the count of days from 1970-01-01 to it.
\<close>

definition leapYear :: "int \<Rightarrow> bool" where
  "leapYear y = ((y mod 4 = 0 \<and> y mod 100 \<noteq> 0) \<or> y mod 400 = 0)"

definition daysInMonth :: "int \<Rightarrow> int \<Rightarrow> int" where
  "daysInMonth y m =
     (if m = 2 then (if leapYear y then 29 else 28)
      else if m = 4 \<or> m = 6 \<or> m = 9 \<or> m = 11 then 30
      else 31)"

definition daysBeforeMonth :: "int \<Rightarrow> int \<Rightarrow> int" where
  "daysBeforeMonth y m = sum_list (map (daysInMonth y) [1..m - 1])"

definition daysBeforeYear :: "int \<Rightarrow> int" where
  "daysBeforeYear y =
     365 * (y - 1970) + ((y - 1) div 4 - 492) - ((y - 1) div 100 - 19) + ((y - 1) div 400 - 4)"

definition dayNumber :: "int \<Rightarrow> int \<Rightarrow> int \<Rightarrow> int" where
  "dayNumber y m d = daysBeforeYear y + daysBeforeMonth y m + (d - 1)"

text \<open>An entry whose title is the empty string, with the title taken away; the same for the link.\<close>

definition emptyAsAbsent :: "string option \<Rightarrow> string option" where
  "emptyAsAbsent x = (if x = Some [] then None else x)"

definition withoutEmptyTitle :: "RssItem \<Rightarrow> RssItem" where
  "withoutEmptyTitle item = item\<lparr>title := emptyAsAbsent (title item)\<rparr>"

definition withoutEmptyLink :: "RssItem \<Rightarrow> RssItem" where
  "withoutEmptyLink item = item\<lparr>link := emptyAsAbsent (link item)\<rparr>"

section \<open>Sample inputs\<close>

text \<open>
  An invocation at 2024-03-15T06:30:00Z. The date parser of the samples knows three
  texts: one hour, four hours and thirty hours before the invocation.
\<close>

definition sampleNow :: instant where
  "sampleNow = 1710484200000"

definition sampleNewDate :: "string \<Rightarrow> instant option" where
  "sampleNewDate s =
     (if s = ''Fri, 15 Mar 2024 05:30:00 GMT'' then Some 1710480600000
      else if s = ''Fri, 15 Mar 2024 02:30:00 GMT'' then Some 1710469800000
      else if s = ''Thu, 14 Mar 2024 00:30:00 GMT'' then Some 1710376200000
      else None)"

definition sampleEnv :: env where
  "sampleEnv = [''TOPIC_ARN'' \<mapsto> ''arn:aws:sns:ap-northeast-1:123456789012:yamada'',
                ''KEY'' \<mapsto> ''secret'']"

definition sampleConfig :: Config where
  "sampleConfig = \<lparr>topicArn = ''arn:aws:sns:ap-northeast-1:123456789012:yamada'',
                    region = ''ap-northeast-1''\<rparr>"

definition sampleConfig_v2 :: Config_v2 where
  "sampleConfig_v2 = \<lparr>topicArn = ''arn:aws:sns:ap-northeast-1:123456789012:yamada'',
                       region = ''ap-northeast-1'', key = ''secret''\<rparr>"

text \<open>An environment in which \<^verbatim>\<open>TOPIC_ARN\<close> is set, to the empty string.\<close>

definition emptyTopicEnv :: env where
  "emptyTopicEnv = [''TOPIC_ARN'' \<mapsto> [], ''KEY'' \<mapsto> ''secret'', ''AWS_REGION'' \<mapsto> ''us-east-1'']"

text \<open>A client that takes every call, and one that takes the first call only.\<close>

definition acceptAll :: "string \<Rightarrow> SNSClient" where
  "acceptAll r tr i = None"

definition acceptFirstOnly :: "string \<Rightarrow> SNSClient" where
  "acceptFirstOnly r tr i = (if publishCalls tr = [] then None else Some (SnsFailure ''Throttled''))"

text \<open>Single-field formatters that print the digits of the field and nothing else.\<close>

definition digitsOnly :: "field \<Rightarrow> instant \<Rightarrow> string" where
  "digitsOnly f t =
     (case f of
        Year \<Rightarrow> numericYear (tokyoYear t)
      | Month \<Rightarrow> twoDigit (tokyoMonth t)
      | Day \<Rightarrow> twoDigit (tokyoDay t)
      | Hour \<Rightarrow> twoDigit (tokyoHour t)
      | Minute \<Rightarrow> twoDigit (tokyoMinute t))"

text \<open>
  Entries: \<open>ep2\<close> is one hour old, \<open>ep1\<close> thirty hours; \<open>bare\<close> is four hours old and
  has neither title nor link, \<open>blank\<close> is the same with the empty string as title and as
  link; \<open>undated\<close> has no publish timestamp, \<open>misdated\<close> one that does not parse.
\<close>

definition ep2 :: RssItem where
  "ep2 = \<lparr>title = Some ''Ep2'', link = Some ''https://example.com/ep2'',
          pubDate = Some ''Fri, 15 Mar 2024 05:30:00 GMT''\<rparr>"

definition ep1 :: RssItem where
  "ep1 = \<lparr>title = Some ''Ep1'', link = Some ''https://example.com/ep1'',
          pubDate = Some ''Thu, 14 Mar 2024 00:30:00 GMT''\<rparr>"

definition bare :: RssItem where
  "bare = \<lparr>title = None, link = None, pubDate = Some ''Fri, 15 Mar 2024 02:30:00 GMT''\<rparr>"

definition blank :: RssItem where
  "blank = \<lparr>title = Some [], link = Some [], pubDate = Some ''Fri, 15 Mar 2024 02:30:00 GMT''\<rparr>"

definition undated :: RssItem where
  "undated = \<lparr>title = Some ''Soon'', link = None, pubDate = None\<rparr>"

definition misdated :: RssItem where
  "misdated = \<lparr>title = Some ''Soon'', link = None, pubDate = Some ''tomorrow''\<rparr>"


section \<open>Traces and the two handlers\<close>

lemma publishCalls_append: "publishCalls (xs @ ys) = publishCalls xs @ publishCalls ys"
  by (induction xs rule: publishCalls.induct) simp_all

lemma published_append: "published (xs @ ys) = published xs @ published ys"
  by (induction xs rule: published.induct) simp_all

lemma publishCalls_sendMessage:
  "publishCalls (fst (sendMessage client tr topic subject message)) =
     publishCalls tr @ [\<lparr>TopicArn = topic, Subject = subject, Message = message\<rparr>]"
  by (simp add: sendMessage_def Let_def publishCalls_append split: option.splits)

text \<open>The first handler, once the gate on the latest item is passed.\<close>

lemma handler_second:
  assumes "getConfigFromEnv e = Inr cfg"
    and "2 \<le> length items"
    and "requirePubDate newDate (items ! 0) = Some d0"
    and "getCutoffDate now 24 < d0"
    and "requirePubDate newDate (items ! 1) = Some d1"
  shows "handler e sdk (Inr items) newDate now =
           sendMessage (sdk (region cfg)) [ParseURL RSS_URL] (topicArn cfg) SUBJECT
             (buildMessage (fst (getItemDisplay (items ! 1))) d1 (snd (getItemDisplay (items ! 1))))"
  using assms
  by (auto simp add: handler_def fetchFeedItems_def createSnsClient_def split: prod.splits)

lemma handler_calls_le1: "length (publishCalls (fst (handler e sdk feed newDate now))) \<le> 1"
  by (auto simp add: handler_def fetchFeedItems_def createSnsClient_def publishCalls_sendMessage
      Let_def split: sum.splits option.splits prod.splits)

text \<open>The loop of the second handler makes at most one call for each item.\<close>

lemma forItems_v2_calls:
  "length (publishCalls (fst (forItems_v2 sns cfg fmt newDate y tr items)))
     \<le> length (publishCalls tr) + length items"
proof (induction items arbitrary: tr)
  case Nil
  then show ?case by simp
next
  case (Cons item rest)
  show ?case
  proof (cases "falsy (pubDate item)")
    case True
    then show ?thesis using Cons.IH [of tr] by simp
  next
    case False
    show ?thesis
    proof (cases "newDate (the (pubDate item))")
      case None
      then show ?thesis using False Cons.IH [of tr] by simp
    next
      case (Some d)
      show ?thesis
      proof (cases "y < d")
        case old: False
        then show ?thesis using False Some Cons.IH [of tr] by simp
      next
        case True
        let ?s = "sendMessage sns tr (topicArn cfg) SUBJECT
                    (buildMessage_v2 fmt (or_else (title item) NO_TITLE) d)"
        have c: "length (publishCalls (fst ?s)) = Suc (length (publishCalls tr))"
          by (simp add: publishCalls_sendMessage)
        show ?thesis
        proof (cases ?s)
          case (Pair tr' r)
          then show ?thesis
            using False Some True c Cons.IH [of tr']
            by (cases r) (auto simp add: Let_def)
        qed
      qed
    qed
  qed
qed

lemma handler_v2_calls:
  "length (publishCalls (fst (handler_v2 e sdk fmt feed newDate now)))
     \<le> (case feed of Inl err \<Rightarrow> 0 | Inr items \<Rightarrow> length items)"
proof (cases "getConfigFromEnv_v2 e")
  case (Inl err)
  then show ?thesis by (simp add: handler_v2_def split: sum.splits)
next
  case (Inr cfg)
  show ?thesis
  proof (cases feed)
    case (Inl err)
    then show ?thesis using Inr by (simp add: handler_v2_def)
  next
    case items: (Inr items)
    show ?thesis
      using forItems_v2_calls [of "sdk (region cfg)" cfg fmt newDate "now - 86400000"
          "[ParseURL RSS_URL]" items]
      by (simp add: handler_v2_def Inr items createSnsClient_def)
  qed
qed

text \<open>The loop over a feed in two parts: the second part runs if the first one did not throw.\<close>

lemma forItems_v2_append:
  "forItems_v2 sns cfg fmt newDate y tr (xs @ ys) =
     (case forItems_v2 sns cfg fmt newDate y tr xs of
        (tr', Inl err) \<Rightarrow> (tr', Inl err)
      | (tr', Inr u) \<Rightarrow> forItems_v2 sns cfg fmt newDate y tr' ys)"
  by (induction xs arbitrary: tr)
    (auto simp add: Let_def split: option.splits prod.splits sum.splits)

text \<open>With a client that takes every call, the loop publishes for the fresh items, in order.\<close>

lemma forItems_v2_accepting:
  assumes "\<forall>tr i. sns tr i = None"
  shows "forItems_v2 sns cfg fmt newDate y tr items =
           (tr @ map PublishOk (map (notification_v2 cfg fmt) (freshItems newDate y items)), Inr ())"
proof (induction items arbitrary: tr)
  case Nil
  then show ?case by (simp add: freshItems_def)
next
  case (Cons item rest)
  have s: "sendMessage sns tr t s m = (tr @ [PublishOk \<lparr>TopicArn = t, Subject = s, Message = m\<rparr>], Inr ())"
    for tr t s m using assms by (simp add: sendMessage_def)
  show ?case
    by (simp add: Cons.IH s freshItems_def requirePubDate_def notification_v2_def
        split: option.splits)
qed

lemma forItems_v2_none_fresh:
  assumes "\<forall>item \<in> set items. \<forall>d. requirePubDate newDate item = Some d \<longrightarrow> d \<le> y"
  shows "forItems_v2 sns cfg fmt newDate y tr items = (tr, Inr ())"
  using assms
proof (induction items)
  case Nil
  then show ?case by simp
next
  case (Cons item rest)
  then show ?case
    by (auto simp add: requirePubDate_def split: option.splits)
qed

section \<open>The sample inputs, evaluated\<close>

lemma sample_config: "getConfigFromEnv sampleEnv = Inr sampleConfig"
  by (simp add: getConfigFromEnv_def sampleEnv_def sampleConfig_def falsy_def nullish_else_def
      DEFAULT_REGION_def)

lemma sample_config_v2: "getConfigFromEnv_v2 sampleEnv = Inr sampleConfig_v2"
  by (simp add: getConfigFromEnv_v2_def sampleEnv_def sampleConfig_v2_def falsy_def nullish_else_def
      DEFAULT_REGION_def)

lemma sample_dates:
  "requirePubDate sampleNewDate ep2 = Some 1710480600000"
  "requirePubDate sampleNewDate ep1 = Some 1710376200000"
  "requirePubDate sampleNewDate bare = Some 1710469800000"
  "requirePubDate sampleNewDate undated = None"
  "requirePubDate sampleNewDate misdated = None"
  by (simp_all add: requirePubDate_def sampleNewDate_def ep2_def ep1_def bare_def undated_def
      misdated_def falsy_def)

lemma sample_cutoff: "getCutoffDate sampleNow 24 = 1710397800000"
  by (simp add: getCutoffDate_def sampleNow_def)

lemma sample_display:
  "getItemDisplay ep1 = (''Ep1'', ''https://example.com/ep1'')"
  "getItemDisplay bare = (NO_TITLE, NO_URL)"
  by (simp_all add: getItemDisplay_def ep1_def bare_def or_else_def)


section \<open>Policy A: the second latest entry\<close>

text \<open>
  C1. In the first version, when the feed has at least two entries, the first entry has a
  usable publish timestamp strictly after the cutoff (the invocation time minus 24 hours)
  and the second entry has a usable publish timestamp, the handler makes exactly one
  publish call, for the message composed from the second entry and its timestamp. Nothing
  is asked of the timestamp of the second entry. If the client takes the call, the
  invocation ends without error.
\<close>

theorem policy_A_selects_second:
  assumes cfg: "getConfigFromEnv e = Inr cfg"
    and len: "2 \<le> length items"
    and latest: "requirePubDate newDate (items ! 0) = Some d0"
    and fresh: "getCutoffDate now 24 < d0"
    and second: "requirePubDate newDate (items ! 1) = Some d1"
  shows "publishCalls (fst (handler e sdk (Inr items) newDate now)) =
           [\<lparr>TopicArn = topicArn cfg, Subject = SUBJECT,
             Message = buildMessage (fst (getItemDisplay (items ! 1))) d1
                         (snd (getItemDisplay (items ! 1)))\<rparr>]
         \<and> (sdk (region cfg) [ParseURL RSS_URL]
               \<lparr>TopicArn = topicArn cfg, Subject = SUBJECT,
                 Message = buildMessage (fst (getItemDisplay (items ! 1))) d1
                             (snd (getItemDisplay (items ! 1)))\<rparr> = None \<longrightarrow>
             handler e sdk (Inr items) newDate now =
               ([ParseURL RSS_URL,
                 PublishOk \<lparr>TopicArn = topicArn cfg, Subject = SUBJECT,
                   Message = buildMessage (fst (getItemDisplay (items ! 1))) d1
                               (snd (getItemDisplay (items ! 1)))\<rparr>], Inr ()))"
proof -
  note h = handler_second [OF cfg len latest fresh second, of sdk]
  show ?thesis
    by (simp add: h publishCalls_sendMessage) (simp add: sendMessage_def)
qed

text \<open>
  The scenario of the specification: the latest entry is one hour old, the second one
  thirty hours, older than the cutoff; the message is the one for the second entry.
\<close>

theorem policy_A_selects_second_witness:
  "getConfigFromEnv sampleEnv = Inr sampleConfig
   \<and> requirePubDate sampleNewDate ([ep2, ep1] ! 0) = Some 1710480600000
   \<and> getCutoffDate sampleNow 24 < 1710480600000
   \<and> requirePubDate sampleNewDate ([ep2, ep1] ! 1) = Some 1710376200000
   \<and> 1710376200000 < getCutoffDate sampleNow 24
   \<and> handler sampleEnv acceptAll (Inr [ep2, ep1]) sampleNewDate sampleNow =
       ([ParseURL RSS_URL,
         PublishOk \<lparr>TopicArn = topicArn sampleConfig, Subject = SUBJECT,
           Message = buildMessage ''Ep1'' 1710376200000 ''https://example.com/ep1''\<rparr>], Inr ())"
  using policy_A_selects_second [of sampleEnv sampleConfig "[ep2, ep1]" sampleNewDate
      1710480600000 sampleNow 1710376200000 acceptAll]
  by (simp add: sample_config sample_dates sample_cutoff sample_display acceptAll_def)

text \<open>
  C6. In the first version, when the feed has a single entry and its usable publish
  timestamp is strictly after the cutoff, the handler returns without error and without
  a publish call.
\<close>

theorem single_fresh_entry_not_enough:
  assumes "getConfigFromEnv e = Inr cfg"
    and "items \<noteq> []" and "length items < 2"
    and "requirePubDate newDate (items ! 0) = Some d"
    and "getCutoffDate now 24 < d"
  shows "handler e sdk (Inr items) newDate now = ([ParseURL RSS_URL], Inr ())"
  using assms by (simp add: handler_def fetchFeedItems_def)

theorem single_fresh_entry_not_enough_witness:
  "getConfigFromEnv sampleEnv = Inr sampleConfig
   \<and> requirePubDate sampleNewDate ([ep2] ! 0) = Some 1710480600000
   \<and> getCutoffDate sampleNow 24 < 1710480600000
   \<and> handler sampleEnv acceptAll (Inr [ep2]) sampleNewDate sampleNow = ([ParseURL RSS_URL], Inr ())"
  using single_fresh_entry_not_enough [of sampleEnv sampleConfig "[ep2]" sampleNewDate
      1710480600000 sampleNow acceptAll]
  by (simp add: sample_config sample_dates sample_cutoff)

text \<open>
  C5. In the first version, when the latest entry has a usable publish timestamp that is
  not strictly after the cutoff, the handler returns without error and without a publish
  call. When no entry of the feed has a usable publish timestamp strictly after the
  cutoff, both versions return without error and without a publish call.
\<close>

theorem nothing_new_nothing_published:
  "(\<forall>cfg items d. getConfigFromEnv e = Inr cfg \<and> items \<noteq> []
        \<and> requirePubDate newDate (items ! 0) = Some d \<and> d \<le> getCutoffDate now 24 \<longrightarrow>
      handler e sdk (Inr items) newDate now = ([ParseURL RSS_URL], Inr ()))
   \<and> (\<forall>cfg cfg2 items. getConfigFromEnv e = Inr cfg \<and> getConfigFromEnv_v2 e = Inr cfg2
        \<and> (\<forall>item \<in> set items. \<forall>d. requirePubDate newDate item = Some d \<longrightarrow>
              d \<le> getCutoffDate now 24) \<longrightarrow>
      handler e sdk (Inr items) newDate now = ([ParseURL RSS_URL], Inr ())
      \<and> handler_v2 e sdk fmt (Inr items) newDate now = ([ParseURL RSS_URL], Inr ()))"
proof (intro conjI allI impI)
  fix cfg items d
  assume "getConfigFromEnv e = Inr cfg \<and> items \<noteq> []
        \<and> requirePubDate newDate (items ! 0) = Some d \<and> d \<le> getCutoffDate now 24"
  then show "handler e sdk (Inr items) newDate now = ([ParseURL RSS_URL], Inr ())"
    by (simp add: handler_def fetchFeedItems_def)
next
  fix cfg :: Config and cfg2 items
  assume a: "getConfigFromEnv e = Inr cfg \<and> getConfigFromEnv_v2 e = Inr cfg2
        \<and> (\<forall>item \<in> set items. \<forall>d. requirePubDate newDate item = Some d \<longrightarrow>
              d \<le> getCutoffDate now 24)"
  show "handler e sdk (Inr items) newDate now = ([ParseURL RSS_URL], Inr ())"
  proof (cases items)
    case Nil
    then show ?thesis using a by (simp add: handler_def fetchFeedItems_def)
  next
    case (Cons x xs)
    then show ?thesis using a
      by (cases "requirePubDate newDate x") (simp_all add: handler_def fetchFeedItems_def)
  qed
  show "handler_v2 e sdk fmt (Inr items) newDate now = ([ParseURL RSS_URL], Inr ())"
    using a forItems_v2_none_fresh [of items newDate "getCutoffDate now 24"]
    by (simp add: handler_v2_def getCutoffDate_def)
qed

text \<open>Two entries, both thirty hours old: neither version publishes.\<close>

theorem nothing_new_nothing_published_witness:
  "getConfigFromEnv sampleEnv = Inr sampleConfig
   \<and> getConfigFromEnv_v2 sampleEnv = Inr sampleConfig_v2
   \<and> requirePubDate sampleNewDate ep1 = Some 1710376200000
   \<and> 1710376200000 \<le> getCutoffDate sampleNow 24
   \<and> handler sampleEnv acceptAll (Inr [ep1, ep1]) sampleNewDate sampleNow
       = ([ParseURL RSS_URL], Inr ())
   \<and> handler_v2 sampleEnv acceptAll digitsOnly (Inr [ep1, ep1]) sampleNewDate sampleNow
       = ([ParseURL RSS_URL], Inr ())"
  using nothing_new_nothing_published [of sampleEnv sampleNewDate sampleNow acceptAll digitsOnly]
  by (simp add: sample_config sample_config_v2 sample_dates sample_cutoff)


section \<open>Policy B: every fresh entry\<close>

text \<open>One round of the loop, in terms of \<open>requirePubDate\<close>.\<close>

lemma forItems_v2_Cons:
  "forItems_v2 sns cfg fmt newDate y tr (item # rest) =
     (case requirePubDate newDate item of
        None \<Rightarrow> forItems_v2 sns cfg fmt newDate y tr rest
      | Some d \<Rightarrow>
          if y < d then
            (case sns tr (notification_v2 cfg fmt (item, d)) of
               None \<Rightarrow> forItems_v2 sns cfg fmt newDate y
                         (tr @ [PublishOk (notification_v2 cfg fmt (item, d))]) rest
             | Some err \<Rightarrow> (tr @ [PublishFailed (notification_v2 cfg fmt (item, d))], Inl err))
          else forItems_v2 sns cfg fmt newDate y tr rest)"
  by (simp add: requirePubDate_def sendMessage_def notification_v2_def split: option.splits)

lemma handler_v2_loop:
  assumes "getConfigFromEnv_v2 e = Inr cfg"
  shows "handler_v2 e sdk fmt (Inr items) newDate now =
           forItems_v2 (sdk (region cfg)) cfg fmt newDate (getCutoffDate now 24)
             [ParseURL RSS_URL] items"
  using assms by (simp add: handler_v2_def createSnsClient_def getCutoffDate_def)

lemma published_map_PublishOk: "published (map PublishOk xs) = xs"
  by (induction xs) simp_all

lemma publishCalls_map_PublishOk: "publishCalls (map PublishOk xs) = xs"
  by (induction xs) simp_all

lemma sample_fresh:
  "freshItems sampleNewDate 1710397800000 [ep2, undated, misdated, ep1, bare] =
     [(ep2, 1710480600000), (bare, 1710469800000)]"
  by (simp add: freshItems_def sample_dates)

text \<open>The publish calls of the loop are the first of those for the fresh items, in order.\<close>

lemma forItems_v2_prefix:
  "\<exists>rest. publishCalls tr @ map (notification_v2 cfg fmt) (freshItems newDate y items) =
          publishCalls (fst (forItems_v2 sns cfg fmt newDate y tr items)) @ rest"
proof (induction items arbitrary: tr)
  case Nil
  then show ?case by (simp add: freshItems_def)
next
  case (Cons item rest)
  show ?case
  proof (cases "requirePubDate newDate item")
    case None
    then show ?thesis
      using Cons.IH [of tr]
      by (simp add: forItems_v2_Cons freshItems_def del: forItems_v2.simps(2))
  next
    case (Some d)
    show ?thesis
    proof (cases "y < d")
      case False
      then show ?thesis
        using Some Cons.IH [of tr]
        by (simp add: forItems_v2_Cons freshItems_def del: forItems_v2.simps(2))
    next
      case True
      show ?thesis
      proof (cases "sns tr (notification_v2 cfg fmt (item, d))")
        case None
        then show ?thesis
          using Some True Cons.IH [of "tr @ [PublishOk (notification_v2 cfg fmt (item, d))]"]
          by (simp add: forItems_v2_Cons freshItems_def publishCalls_append
              del: forItems_v2.simps(2))
      next
        case (Some err)
        then show ?thesis
          using \<open>requirePubDate newDate item = Some d\<close> True
          by (simp add: forItems_v2_Cons freshItems_def publishCalls_append
              del: forItems_v2.simps(2))
      qed
    qed
  qed
qed

text \<open>
  C4. In the second version, with a loaded configuration, the publish calls of an
  invocation begin the list of the messages for the entries whose usable publish timestamp
  is strictly after the cutoff, one for each such entry in the order of the feed: no
  entry gets two calls, and no other entry gets any. With a client that takes every
  call, the handler publishes the whole list, exactly one message for each such entry,
  and ends without error; entries without a usable timestamp are passed over and the loop
  goes on.
\<close>

theorem policy_B_notifies_each_fresh:
  assumes cfg: "getConfigFromEnv_v2 e = Inr cfg"
  shows "(\<exists>rest. map (notification_v2 cfg fmt) (freshItems newDate (getCutoffDate now 24) items) =
            publishCalls (fst (handler_v2 e sdk fmt (Inr items) newDate now)) @ rest)
         \<and> ((\<forall>tr i. sdk (region cfg) tr i = None) \<longrightarrow>
              handler_v2 e sdk fmt (Inr items) newDate now =
                (ParseURL RSS_URL #
                   map PublishOk (map (notification_v2 cfg fmt)
                     (freshItems newDate (getCutoffDate now 24) items)),
                 Inr ())
              \<and> published (fst (handler_v2 e sdk fmt (Inr items) newDate now)) =
                  map (notification_v2 cfg fmt) (freshItems newDate (getCutoffDate now 24) items))"
proof (intro conjI impI)
  show "\<exists>rest. map (notification_v2 cfg fmt) (freshItems newDate (getCutoffDate now 24) items) =
            publishCalls (fst (handler_v2 e sdk fmt (Inr items) newDate now)) @ rest"
    using forItems_v2_prefix [of "[ParseURL RSS_URL]" cfg fmt newDate "getCutoffDate now 24" items
        "sdk (region cfg)"]
    by (simp add: handler_v2_loop [OF cfg])
next
  assume ok: "\<forall>tr i. sdk (region cfg) tr i = None"
  show h: "handler_v2 e sdk fmt (Inr items) newDate now =
           (ParseURL RSS_URL #
              map PublishOk (map (notification_v2 cfg fmt)
                (freshItems newDate (getCutoffDate now 24) items)),
            Inr ())"
    using forItems_v2_accepting [OF ok, of cfg fmt newDate "getCutoffDate now 24"
        "[ParseURL RSS_URL]" items]
    by (simp add: handler_v2_loop [OF cfg])
  show "published (fst (handler_v2 e sdk fmt (Inr items) newDate now)) =
          map (notification_v2 cfg fmt) (freshItems newDate (getCutoffDate now 24) items)"
    by (simp add: h published_map_PublishOk del: map_map)
qed

text \<open>
  Five entries, of which the first and the last are fresh, one has no timestamp and one
  has a timestamp that does not parse: two messages are published.
\<close>

theorem policy_B_notifies_each_fresh_witness:
  "getConfigFromEnv_v2 sampleEnv = Inr sampleConfig_v2
   \<and> (\<forall>tr i. acceptAll (region sampleConfig_v2) tr i = None)
   \<and> freshItems sampleNewDate (getCutoffDate sampleNow 24) [ep2, undated, misdated, ep1, bare] =
       [(ep2, 1710480600000), (bare, 1710469800000)]
   \<and> handler_v2 sampleEnv acceptAll digitsOnly (Inr [ep2, undated, misdated, ep1, bare])
         sampleNewDate sampleNow =
       ([ParseURL RSS_URL,
         PublishOk (notification_v2 sampleConfig_v2 digitsOnly (ep2, 1710480600000)),
         PublishOk (notification_v2 sampleConfig_v2 digitsOnly (bare, 1710469800000))], Inr ())"
  using policy_B_notifies_each_fresh [of sampleEnv sampleConfig_v2 digitsOnly sampleNewDate
      sampleNow "[ep2, undated, misdated, ep1, bare]" acceptAll]
  by (simp add: sample_config_v2 sample_cutoff sample_fresh acceptAll_def)

text \<open>
  C2, as amended. The first version makes at most one publish call in an invocation,
  whatever the environment, the feed and the client. The second version makes at most
  one publish call for each entry of the feed, and none when the feed request fails.
\<close>

theorem publish_calls_bounded:
  "length (publishCalls (fst (handler e sdk feed newDate now))) \<le> 1
   \<and> length (publishCalls (fst (handler_v2 e sdk fmt feed newDate now)))
       \<le> (case feed of Inl err \<Rightarrow> 0 | Inr items \<Rightarrow> length items)"
  using handler_calls_le1 [of e sdk feed newDate now]
    handler_v2_calls [of e sdk fmt feed newDate now]
  by simp

theorem publish_calls_bounded_witness:
  "length (publishCalls (fst (handler sampleEnv acceptAll (Inr [ep2, bare]) sampleNewDate sampleNow))) \<le> 1
   \<and> length (publishCalls (fst (handler_v2 sampleEnv acceptAll digitsOnly (Inr [ep2, bare])
        sampleNewDate sampleNow))) \<le> 2"
  using publish_calls_bounded [of sampleEnv acceptAll "Inr [ep2, bare]" sampleNewDate sampleNow
      digitsOnly]
  by simp

text \<open>
  The sentence of the specification fails for the second version: a feed with two fresh entries
  gives two publish calls in one invocation.
\<close>

theorem two_fresh_entries_two_publish_calls:
  "\<not> length (publishCalls (fst (handler_v2 sampleEnv acceptAll digitsOnly (Inr [ep2, bare])
        sampleNewDate sampleNow))) \<le> 1"
  by (simp add: handler_v2_loop [OF sample_config_v2] forItems_v2_Cons sample_dates sample_cutoff
      acceptAll_def del: forItems_v2.simps(2))

section \<open>Publish errors\<close>

text \<open>
  C9. When the client rejects the call, \<open>sendMessage\<close> ends with the value the client
  threw. In the second version, when the entries before a fresh entry went through
  without error and the client rejects the call for that entry, the invocation ends with
  the thrown value right after the rejected call: whatever entries follow, nothing is
  published for them.
\<close>

theorem publish_failure_aborts:
  "(client tr \<lparr>TopicArn = topic, Subject = subject, Message = message\<rparr> = Some err \<longrightarrow>
      sendMessage client tr topic subject message =
        (tr @ [PublishFailed \<lparr>TopicArn = topic, Subject = subject, Message = message\<rparr>], Inl err))
   \<and> (\<forall>cfg tr' d. getConfigFromEnv_v2 e = Inr cfg
        \<and> handler_v2 e sdk fmt (Inr pre) newDate now = (tr', Inr ())
        \<and> requirePubDate newDate item = Some d \<and> getCutoffDate now 24 < d
        \<and> sdk (region cfg) tr' (notification_v2 cfg fmt (item, d)) = Some err \<longrightarrow>
      handler_v2 e sdk fmt (Inr (pre @ item # rest)) newDate now =
        (tr' @ [PublishFailed (notification_v2 cfg fmt (item, d))], Inl err)
      \<and> published (fst (handler_v2 e sdk fmt (Inr (pre @ item # rest)) newDate now))
          = published tr')"
proof (intro conjI allI impI)
  assume "client tr \<lparr>TopicArn = topic, Subject = subject, Message = message\<rparr> = Some err"
  then show "sendMessage client tr topic subject message =
        (tr @ [PublishFailed \<lparr>TopicArn = topic, Subject = subject, Message = message\<rparr>], Inl err)"
    by (simp add: sendMessage_def)
next
  fix cfg tr' d
  assume a: "getConfigFromEnv_v2 e = Inr cfg
        \<and> handler_v2 e sdk fmt (Inr pre) newDate now = (tr', Inr ())
        \<and> requirePubDate newDate item = Some d \<and> getCutoffDate now 24 < d
        \<and> sdk (region cfg) tr' (notification_v2 cfg fmt (item, d)) = Some err"
  then have cfg: "getConfigFromEnv_v2 e = Inr cfg" by simp
  have pre: "forItems_v2 (sdk (region cfg)) cfg fmt newDate (getCutoffDate now 24)
               [ParseURL RSS_URL] pre = (tr', Inr ())"
    using a by (simp add: handler_v2_loop [OF cfg])
  have item: "forItems_v2 (sdk (region cfg)) cfg fmt newDate (getCutoffDate now 24) tr'
                (item # rest) = (tr' @ [PublishFailed (notification_v2 cfg fmt (item, d))], Inl err)"
    using a by (simp add: forItems_v2_Cons del: forItems_v2.simps(2))
  show r: "handler_v2 e sdk fmt (Inr (pre @ item # rest)) newDate now =
        (tr' @ [PublishFailed (notification_v2 cfg fmt (item, d))], Inl err)"
    by (simp add: handler_v2_loop [OF cfg] forItems_v2_append pre item del: forItems_v2.simps(2))
  show "published (fst (handler_v2 e sdk fmt (Inr (pre @ item # rest)) newDate now))
          = published tr'"
    by (simp add: r published_append)
qed

text \<open>
  A client that takes the first call only, and three fresh entries after the first of
  which comes an entry without timestamp: the second call is rejected, the third entry is
  never reached.
\<close>

theorem publish_failure_aborts_witness:
  "sendMessage (acceptFirstOnly []) [PublishOk \<lparr>TopicArn = [], Subject = [], Message = []\<rparr>]
       ''arn'' ''subject'' ''message'' =
     ([PublishOk \<lparr>TopicArn = [], Subject = [], Message = []\<rparr>,
       PublishFailed \<lparr>TopicArn = ''arn'', Subject = ''subject'', Message = ''message''\<rparr>],
      Inl (SnsFailure ''Throttled''))
   \<and> handler_v2 sampleEnv acceptFirstOnly digitsOnly (Inr ([ep2, undated] @ bare # [ep2]))
         sampleNewDate sampleNow =
       ([ParseURL RSS_URL,
         PublishOk (notification_v2 sampleConfig_v2 digitsOnly (ep2, 1710480600000)),
         PublishFailed (notification_v2 sampleConfig_v2 digitsOnly (bare, 1710469800000))],
        Inl (SnsFailure ''Throttled''))
   \<and> published (fst (handler_v2 sampleEnv acceptFirstOnly digitsOnly
         (Inr ([ep2, undated] @ bare # [ep2])) sampleNewDate sampleNow))
       = [notification_v2 sampleConfig_v2 digitsOnly (ep2, 1710480600000)]"
proof -
  have pre: "handler_v2 sampleEnv acceptFirstOnly digitsOnly (Inr [ep2, undated]) sampleNewDate
               sampleNow =
             ([ParseURL RSS_URL,
               PublishOk (notification_v2 sampleConfig_v2 digitsOnly (ep2, 1710480600000))], Inr ())"
    by (simp add: handler_v2_loop [OF sample_config_v2] forItems_v2_Cons sample_dates
        sample_cutoff acceptFirstOnly_def del: forItems_v2.simps(2))
  have rej: "acceptFirstOnly r (tr @ [PublishOk i]) j = Some (SnsFailure ''Throttled'')" for r tr i j
    by (simp add: acceptFirstOnly_def publishCalls_append)
  show ?thesis
    using publish_failure_aborts [where client = "acceptFirstOnly []"
        and tr = "[PublishOk \<lparr>TopicArn = [], Subject = [], Message = []\<rparr>]"
        and topic = "''arn''" and subject = "''subject''" and message = "''message''"
        and err = "SnsFailure ''Throttled''"
        and e = sampleEnv and sdk = acceptFirstOnly and fmt = digitsOnly
        and pre = "[ep2, undated]" and newDate = sampleNewDate and now = sampleNow
        and item = bare and rest = "[ep2]"]
      pre rej [of _ "[]"] rej [of _ "[ParseURL RSS_URL]"]
    by (simp add: sample_config_v2 sample_dates sample_cutoff)
qed


section \<open>Composer fallbacks\<close>

lemma NO_TITLE_not_empty: "NO_TITLE \<noteq> []"
  by (simp add: NO_TITLE_def)

lemma NO_URL_not_empty: "NO_URL \<noteq> []"
  by (simp add: NO_URL_def)

lemma or_else_emptyAsAbsent: "or_else (emptyAsAbsent x) d = or_else x d"
  by (simp add: or_else_def emptyAsAbsent_def)

lemma or_else_not_empty: "d \<noteq> [] \<Longrightarrow> or_else x d \<noteq> []"
  by (simp add: or_else_def split: option.splits)

text \<open>
  C7. In the first version, the one message that is published for the second entry has
  six lines, the fourth with the display title and the sixth with the display URL of the
  entry; the display title is the placeholder title when the entry has no title, the
  display URL is the placeholder URL when the entry has no link. In the second version,
  the message published for a fresh entry without title has five lines, the fourth with
  the placeholder title and the last with the date: there is no line for a URL, whatever
  the link of the entry.
\<close>

theorem composer_fallback:
  "(\<forall>cfg d0 d1. getConfigFromEnv e = Inr cfg \<and> 2 \<le> length items
        \<and> requirePubDate newDate (items ! 0) = Some d0 \<and> getCutoffDate now 24 < d0
        \<and> requirePubDate newDate (items ! 1) = Some d1 \<longrightarrow>
      publishCalls (fst (handler e sdk (Inr items) newDate now)) =
        [\<lparr>TopicArn = topicArn cfg, Subject = SUBJECT,
          Message = join [CHR 0x0A]
            [announceLine, [], detailsHeader,
             titlePrefix @ fst (getItemDisplay (items ! 1)),
             datePrefix @ formatJstDateTime d1,
             urlPrefix @ snd (getItemDisplay (items ! 1))]\<rparr>]
      \<and> (title (items ! 1) = None \<longrightarrow> fst (getItemDisplay (items ! 1)) = NO_TITLE)
      \<and> (link (items ! 1) = None \<longrightarrow> snd (getItemDisplay (items ! 1)) = NO_URL))
   \<and> (\<forall>cfg d. getConfigFromEnv_v2 e2 = Inr cfg \<and> requirePubDate newDate item = Some d
        \<and> getCutoffDate now 24 < d \<and> title item = None \<longrightarrow>
      publishCalls (fst (handler_v2 e2 sdk fmt (Inr [item]) newDate now)) =
        [\<lparr>TopicArn = topicArn cfg, Subject = SUBJECT,
          Message = join [CHR 0x0A]
            [announceLine, [], detailsHeader,
             titlePrefix @ NO_TITLE,
             datePrefix @ formatJstDateTime_v2 fmt d]\<rparr>])"
proof (intro conjI allI impI)
  fix cfg d0 d1
  assume a: "getConfigFromEnv e = Inr cfg \<and> 2 \<le> length items
        \<and> requirePubDate newDate (items ! 0) = Some d0 \<and> getCutoffDate now 24 < d0
        \<and> requirePubDate newDate (items ! 1) = Some d1"
  have "handler e sdk (Inr items) newDate now =
           sendMessage (sdk (region cfg)) [ParseURL RSS_URL] (topicArn cfg) SUBJECT
             (buildMessage (fst (getItemDisplay (items ! 1))) d1 (snd (getItemDisplay (items ! 1))))"
    using a handler_second [of e cfg items newDate d0 now d1 sdk] by simp
  then show "publishCalls (fst (handler e sdk (Inr items) newDate now)) =
        [\<lparr>TopicArn = topicArn cfg, Subject = SUBJECT,
          Message = join [CHR 0x0A]
            [announceLine, [], detailsHeader,
             titlePrefix @ fst (getItemDisplay (items ! 1)),
             datePrefix @ formatJstDateTime d1,
             urlPrefix @ snd (getItemDisplay (items ! 1))]\<rparr>]"
    by (simp add: publishCalls_sendMessage buildMessage_def)
next
  assume "title (items ! 1) = None"
  then show "fst (getItemDisplay (items ! 1)) = NO_TITLE"
    by (simp add: getItemDisplay_def or_else_def)
next
  assume "link (items ! 1) = None"
  then show "snd (getItemDisplay (items ! 1)) = NO_URL"
    by (simp add: getItemDisplay_def or_else_def)
next
  fix cfg d
  assume a: "getConfigFromEnv_v2 e2 = Inr cfg \<and> requirePubDate newDate item = Some d
        \<and> getCutoffDate now 24 < d \<and> title item = None"
  then have cfg: "getConfigFromEnv_v2 e2 = Inr cfg" by simp
  show "publishCalls (fst (handler_v2 e2 sdk fmt (Inr [item]) newDate now)) =
        [\<lparr>TopicArn = topicArn cfg, Subject = SUBJECT,
          Message = join [CHR 0x0A]
            [announceLine, [], detailsHeader,
             titlePrefix @ NO_TITLE,
             datePrefix @ formatJstDateTime_v2 fmt d]\<rparr>]"
    using a
    by (simp add: handler_v2_loop [OF cfg] forItems_v2_Cons notification_v2_def buildMessage_v2_def
        or_else_def del: forItems_v2.simps(2) split: option.splits)
qed

text \<open>An entry without title and link, second in the first version, alone in the second.\<close>

theorem composer_fallback_witness:
  "title bare = None \<and> link bare = None
   \<and> publishCalls (fst (handler sampleEnv acceptAll (Inr [ep2, bare]) sampleNewDate sampleNow)) =
        [\<lparr>TopicArn = topicArn sampleConfig, Subject = SUBJECT,
          Message = join [CHR 0x0A]
            [announceLine, [], detailsHeader,
             titlePrefix @ NO_TITLE,
             datePrefix @ formatJstDateTime 1710469800000,
             urlPrefix @ NO_URL]\<rparr>]
   \<and> publishCalls (fst (handler_v2 sampleEnv acceptAll digitsOnly (Inr [bare]) sampleNewDate
        sampleNow)) =
        [\<lparr>TopicArn = topicArn sampleConfig_v2, Subject = SUBJECT,
          Message = join [CHR 0x0A]
            [announceLine, [], detailsHeader,
             titlePrefix @ NO_TITLE,
             datePrefix @ formatJstDateTime_v2 digitsOnly 1710469800000]\<rparr>]"
  using composer_fallback [where e = sampleEnv and items = "[ep2, bare]" and newDate = sampleNewDate
      and now = sampleNow and sdk = acceptAll and ?e2.0 = sampleEnv and item = bare
      and fmt = digitsOnly]
  by (simp add: sample_config sample_config_v2 sample_dates sample_cutoff sample_display)
    (simp add: bare_def)

section \<open>Falsy titles and links\<close>

lemma getItemDisplay_without_empty:
  "getItemDisplay (withoutEmptyLink (withoutEmptyTitle item)) = getItemDisplay item"
  by (simp add: getItemDisplay_def withoutEmptyLink_def withoutEmptyTitle_def or_else_emptyAsAbsent)

lemma requirePubDate_without_empty:
  "requirePubDate newDate (withoutEmptyLink (withoutEmptyTitle item)) = requirePubDate newDate item"
  "requirePubDate newDate (withoutEmptyTitle item) = requirePubDate newDate item"
  by (simp_all add: requirePubDate_def withoutEmptyLink_def withoutEmptyTitle_def)

lemma handler_without_empty:
  "handler e sdk (Inr (map (\<lambda>i. withoutEmptyLink (withoutEmptyTitle i)) items)) newDate now =
     handler e sdk (Inr items) newDate now"
proof (cases "getConfigFromEnv e")
  case (Inl err)
  then show ?thesis by (simp add: handler_def)
next
  case (Inr cfg)
  show ?thesis
  proof (cases items)
    case Nil
    then show ?thesis by simp
  next
    case (Cons x xs)
    show ?thesis
    proof (cases xs)
      case Nil
      then show ?thesis using Cons Inr
        by (simp add: handler_def fetchFeedItems_def requirePubDate_without_empty)
    next
      case (Cons y ys)
      then show ?thesis using \<open>items = x # xs\<close> Inr
        by (simp add: handler_def fetchFeedItems_def requirePubDate_without_empty
            getItemDisplay_without_empty Let_def split: option.splits)
    qed
  qed
qed

lemma forItems_v2_without_empty:
  "forItems_v2 sns cfg fmt newDate y tr (map withoutEmptyTitle items) =
     forItems_v2 sns cfg fmt newDate y tr items"
proof (induction items arbitrary: tr)
  case Nil
  then show ?case by simp
next
  case (Cons item rest)
  have n: "notification_v2 cfg fmt (withoutEmptyTitle item, d) = notification_v2 cfg fmt (item, d)"
    for d by (simp add: notification_v2_def withoutEmptyTitle_def or_else_emptyAsAbsent)
  show ?case
    by (simp add: forItems_v2_Cons requirePubDate_without_empty n Cons.IH
        del: forItems_v2.simps(2) split: option.splits)
qed

text \<open>
  C10. The display title is the placeholder title whenever the title of the entry is
  absent or the empty string, and the display URL of the first version is the placeholder
  URL whenever the link is absent or the empty string; neither is ever the empty string.
  Replacing an empty title (and, in the first version, an empty link) by an absent one in
  the entries of the feed changes nothing of what either handler does.
\<close>

theorem falsy_title_and_link:
  "(falsy (title item) \<longrightarrow> fst (getItemDisplay item) = NO_TITLE)
   \<and> (falsy (link item) \<longrightarrow> snd (getItemDisplay item) = NO_URL)
   \<and> fst (getItemDisplay item) \<noteq> []
   \<and> snd (getItemDisplay item) \<noteq> []
   \<and> handler e sdk (Inr (map (\<lambda>i. withoutEmptyLink (withoutEmptyTitle i)) items)) newDate now =
       handler e sdk (Inr items) newDate now
   \<and> handler_v2 e2 sdk fmt (Inr (map withoutEmptyTitle items)) newDate now =
       handler_v2 e2 sdk fmt (Inr items) newDate now
   \<and> (\<forall>cfg d. getConfigFromEnv_v2 e2 = Inr cfg \<and> requirePubDate newDate item = Some d
        \<and> getCutoffDate now 24 < d \<and> falsy (title item) \<longrightarrow>
      publishCalls (fst (handler_v2 e2 sdk fmt (Inr [item]) newDate now)) =
        [\<lparr>TopicArn = topicArn cfg, Subject = SUBJECT,
          Message = buildMessage_v2 fmt NO_TITLE d\<rparr>])"
proof (intro conjI allI impI)
  assume "falsy (title item)"
  then show "fst (getItemDisplay item) = NO_TITLE"
    by (simp add: getItemDisplay_def or_else_def falsy_def split: option.splits)
next
  assume "falsy (link item)"
  then show "snd (getItemDisplay item) = NO_URL"
    by (simp add: getItemDisplay_def or_else_def falsy_def split: option.splits)
next
  show "fst (getItemDisplay item) \<noteq> []"
    by (simp add: getItemDisplay_def or_else_not_empty NO_TITLE_not_empty)
  show "snd (getItemDisplay item) \<noteq> []"
    by (simp add: getItemDisplay_def or_else_not_empty NO_URL_not_empty)
  show "handler e sdk (Inr (map (\<lambda>i. withoutEmptyLink (withoutEmptyTitle i)) items)) newDate now =
       handler e sdk (Inr items) newDate now"
    by (rule handler_without_empty)
  show "handler_v2 e2 sdk fmt (Inr (map withoutEmptyTitle items)) newDate now =
       handler_v2 e2 sdk fmt (Inr items) newDate now"
  proof (cases "getConfigFromEnv_v2 e2")
    case (Inl err)
    then show ?thesis by (simp add: handler_v2_def)
  next
    case (Inr cfg)
    then show ?thesis
      by (simp add: handler_v2_loop [OF Inr] forItems_v2_without_empty)
  qed
next
  fix cfg d
  assume a: "getConfigFromEnv_v2 e2 = Inr cfg \<and> requirePubDate newDate item = Some d
        \<and> getCutoffDate now 24 < d \<and> falsy (title item)"
  then have cfg: "getConfigFromEnv_v2 e2 = Inr cfg" by simp
  have t: "or_else (title item) NO_TITLE = NO_TITLE"
    using a by (simp add: or_else_def falsy_def split: option.splits)
  show "publishCalls (fst (handler_v2 e2 sdk fmt (Inr [item]) newDate now)) =
        [\<lparr>TopicArn = topicArn cfg, Subject = SUBJECT,
          Message = buildMessage_v2 fmt NO_TITLE d\<rparr>]"
    using a
    by (simp add: handler_v2_loop [OF cfg] forItems_v2_Cons notification_v2_def t
        del: forItems_v2.simps(2) split: option.splits)
qed

text \<open>
  An entry with the empty string as title and as link is displayed and handled as the
  entry without title and link.
\<close>

theorem falsy_title_and_link_witness:
  "falsy (title blank) \<and> falsy (link blank)
   \<and> getItemDisplay blank = (NO_TITLE, NO_URL)
   \<and> withoutEmptyLink (withoutEmptyTitle blank) = bare
   \<and> handler sampleEnv acceptAll (Inr [ep2, bare]) sampleNewDate sampleNow =
       handler sampleEnv acceptAll (Inr [ep2, blank]) sampleNewDate sampleNow
   \<and> title (withoutEmptyTitle blank) = None
   \<and> handler_v2 sampleEnv acceptAll digitsOnly (Inr [ep2, withoutEmptyTitle blank]) sampleNewDate
         sampleNow =
       handler_v2 sampleEnv acceptAll digitsOnly (Inr [ep2, blank]) sampleNewDate sampleNow
   \<and> publishCalls (fst (handler_v2 sampleEnv acceptAll digitsOnly (Inr [blank]) sampleNewDate
         sampleNow)) =
        [\<lparr>TopicArn = topicArn sampleConfig_v2, Subject = SUBJECT,
          Message = buildMessage_v2 digitsOnly NO_TITLE 1710469800000\<rparr>]"
proof -
  have b: "withoutEmptyLink (withoutEmptyTitle blank) = bare" "withoutEmptyTitle ep2 = ep2"
    "withoutEmptyLink ep2 = ep2" "title (withoutEmptyTitle blank) = None"
    by (simp_all add: withoutEmptyLink_def withoutEmptyTitle_def emptyAsAbsent_def blank_def
        bare_def ep2_def)
  have f: "falsy (title blank)" "falsy (link blank)"
    by (simp_all add: blank_def falsy_def)
  have d: "requirePubDate sampleNewDate blank = Some 1710469800000"
    by (simp add: requirePubDate_def sampleNewDate_def blank_def falsy_def)
  show ?thesis
    using falsy_title_and_link [where item = blank and e = sampleEnv and sdk = acceptAll
        and items = "[ep2, blank]" and newDate = sampleNewDate and now = sampleNow
        and ?e2.0 = sampleEnv and fmt = digitsOnly] f d
    by (simp add: b sample_config_v2 sample_cutoff prod_eq_iff)
qed

section \<open>Configuration loading\<close>

text \<open>
  C8, as amended. \<open>getConfigFromEnv\<close> throws if and only if a required value is absent
  from the environment or is the empty string: \<^verbatim>\<open>TOPIC_ARN\<close> in the first version,
  \<^verbatim>\<open>KEY\<close> or \<^verbatim>\<open>TOPIC_ARN\<close> in the second. When it returns, the configuration holds
  the required values as they are in the environment, and its region is the default
  region when \<^verbatim>\<open>AWS_REGION\<close> is absent and the value of \<^verbatim>\<open>AWS_REGION\<close> otherwise.
  When it throws, the handler ends with the thrown value before the feed request and
  before any publish call.
\<close>

theorem config_loading:
  "(isl (getConfigFromEnv e) \<longleftrightarrow> e ''TOPIC_ARN'' = None \<or> e ''TOPIC_ARN'' = Some [])
   \<and> (isl (getConfigFromEnv_v2 e) \<longleftrightarrow>
        e ''KEY'' = None \<or> e ''KEY'' = Some []
        \<or> e ''TOPIC_ARN'' = None \<or> e ''TOPIC_ARN'' = Some [])
   \<and> (\<forall>cfg. getConfigFromEnv e = Inr cfg \<longrightarrow>
        e ''TOPIC_ARN'' = Some (topicArn cfg)
        \<and> region cfg = (case e ''AWS_REGION'' of None \<Rightarrow> DEFAULT_REGION | Some r \<Rightarrow> r))
   \<and> (\<forall>cfg. getConfigFromEnv_v2 e = Inr cfg \<longrightarrow>
        e ''TOPIC_ARN'' = Some (topicArn cfg) \<and> e ''KEY'' = Some (key cfg)
        \<and> region cfg = (case e ''AWS_REGION'' of None \<Rightarrow> DEFAULT_REGION | Some r \<Rightarrow> r))
   \<and> (\<forall>err. getConfigFromEnv e = Inl err \<longrightarrow>
        handler e sdk feed newDate now = ([], Inl err))
   \<and> (\<forall>err. getConfigFromEnv_v2 e = Inl err \<longrightarrow>
        handler_v2 e sdk fmt feed newDate now = ([], Inl err))"
proof (intro conjI allI impI)
  show "isl (getConfigFromEnv e) \<longleftrightarrow> e ''TOPIC_ARN'' = None \<or> e ''TOPIC_ARN'' = Some []"
    by (simp add: getConfigFromEnv_def falsy_def Let_def split: option.splits)
  show "isl (getConfigFromEnv_v2 e) \<longleftrightarrow>
        e ''KEY'' = None \<or> e ''KEY'' = Some []
        \<or> e ''TOPIC_ARN'' = None \<or> e ''TOPIC_ARN'' = Some []"
    by (simp add: getConfigFromEnv_v2_def falsy_def Let_def split: option.splits)
next
  fix cfg
  assume "getConfigFromEnv e = Inr cfg"
  then show "e ''TOPIC_ARN'' = Some (topicArn cfg)"
    and "region cfg = (case e ''AWS_REGION'' of None \<Rightarrow> DEFAULT_REGION | Some r \<Rightarrow> r)"
    by (auto simp add: getConfigFromEnv_def falsy_def nullish_else_def Let_def
        split: option.splits if_splits)
next
  fix cfg
  assume "getConfigFromEnv_v2 e = Inr cfg"
  then show "e ''TOPIC_ARN'' = Some (topicArn cfg)" and "e ''KEY'' = Some (key cfg)"
    and "region cfg = (case e ''AWS_REGION'' of None \<Rightarrow> DEFAULT_REGION | Some r \<Rightarrow> r)"
    by (auto simp add: getConfigFromEnv_v2_def falsy_def nullish_else_def Let_def
        split: option.splits if_splits)
next
  fix err
  assume "getConfigFromEnv e = Inl err"
  then show "handler e sdk feed newDate now = ([], Inl err)"
    by (simp add: handler_def)
next
  fix err
  assume "getConfigFromEnv_v2 e = Inl err"
  then show "handler_v2 e sdk fmt feed newDate now = ([], Inl err)"
    by (simp add: handler_v2_def)
qed

text \<open>
  The sample environment has no \<^verbatim>\<open>AWS_REGION\<close>; with \<^verbatim>\<open>TOPIC_ARN\<close> set to the empty
  string the first handler ends at once.
\<close>

theorem config_loading_witness:
  "getConfigFromEnv sampleEnv = Inr sampleConfig
   \<and> sampleEnv ''AWS_REGION'' = None \<and> region sampleConfig = DEFAULT_REGION
   \<and> getConfigFromEnv emptyTopicEnv = Inl (Error ''Missing environment variables: TOPIC_ARN'')
   \<and> getConfigFromEnv_v2 emptyTopicEnv =
        Inl (Error ''Missing environment variables: KEY or TOPIC_ARN'')
   \<and> handler emptyTopicEnv acceptAll (Inr [ep2, ep1]) sampleNewDate sampleNow =
        ([], Inl (Error ''Missing environment variables: TOPIC_ARN''))
   \<and> handler_v2 emptyTopicEnv acceptAll digitsOnly (Inr [ep2, ep1]) sampleNewDate sampleNow =
        ([], Inl (Error ''Missing environment variables: KEY or TOPIC_ARN''))"
proof -
  have a: "getConfigFromEnv emptyTopicEnv = Inl (Error ''Missing environment variables: TOPIC_ARN'')"
    by (simp add: getConfigFromEnv_def emptyTopicEnv_def falsy_def)
  have b: "getConfigFromEnv_v2 emptyTopicEnv =
        Inl (Error ''Missing environment variables: KEY or TOPIC_ARN'')"
    by (simp add: getConfigFromEnv_v2_def emptyTopicEnv_def falsy_def)
  have c: "sampleEnv ''AWS_REGION'' = None"
    by (simp add: sampleEnv_def)
  show ?thesis
    using config_loading [of sampleEnv acceptAll "Inr [ep2, ep1]" sampleNewDate sampleNow digitsOnly]
      config_loading [of emptyTopicEnv acceptAll "Inr [ep2, ep1]" sampleNewDate sampleNow digitsOnly]
    by (simp add: sample_config a b c)
qed

text \<open>
  The sentence of the specification fails as it stands: with \<^verbatim>\<open>TOPIC_ARN\<close> present and empty,
  \<open>getConfigFromEnv\<close> throws although no required value is absent.
\<close>

theorem config_empty_value_throws:
  "\<not> (isl (getConfigFromEnv emptyTopicEnv) \<longleftrightarrow> emptyTopicEnv ''TOPIC_ARN'' = None)"
  by (simp add: getConfigFromEnv_def emptyTopicEnv_def falsy_def)


section \<open>The date line\<close>

lemma marchYearDay_day:
  "0 \<le> snd (marchYearDay z) \<and> snd (marchYearDay z) \<le> 365"
proof -
  define r2 where "r2 = (z mod 146097 - min 3 (z mod 146097 div 36524) * 36524) mod 1461"
  have s: "snd (marchYearDay z) = r2 - min 3 (r2 div 365) * 365"
    by (simp add: marchYearDay_def Let_def r2_def)
  have "0 \<le> r2" "r2 < 1461" by (simp_all add: r2_def)
  then show ?thesis unfolding s by arith
qed

lemma monthDay_bounds:
  assumes "0 \<le> doy" and "doy \<le> 365"
  shows "1 \<le> fst (monthDay doy) \<and> fst (monthDay doy) \<le> 12
         \<and> 1 \<le> snd (monthDay doy) \<and> snd (monthDay doy) \<le> 31"
proof -
  define mp where "mp = (5 * doy + 2) div 153"
  have f: "fst (monthDay doy) = (if mp < 10 then mp + 3 else mp - 9)"
    and s: "snd (monthDay doy) = doy - (153 * mp + 2) div 5 + 1"
    by (simp_all add: monthDay_def Let_def mp_def)
  have mp: "0 \<le> mp" "mp \<le> 11" using assms unfolding mp_def by arith+
  have d: "1 \<le> doy - (153 * mp + 2) div 5 + 1" "doy - (153 * mp + 2) div 5 + 1 \<le> 31"
    using assms unfolding mp_def by arith+
  show ?thesis using mp d by (simp add: f s)
qed

lemma civilFromDays_bounds:
  "1 \<le> fst (snd (civilFromDays n)) \<and> fst (snd (civilFromDays n)) \<le> 12
   \<and> 1 \<le> snd (snd (civilFromDays n)) \<and> snd (snd (civilFromDays n)) \<le> 31"
  using monthDay_bounds [of "snd (marchYearDay (n + 719468))"] marchYearDay_day [of "n + 719468"]
  by (simp add: civilFromDays_def Let_def)

text \<open>
  The year that begins in March and the day within it: the day is counted from the first
  of March of that year, and the year has 366 days only if the next February has 29.
\<close>

lemma marchYearDay_sound:
  assumes "marchYearDay z = (y, doy)"
  shows "z = 365 * y + y div 4 - y div 100 + y div 400 + doy"
    and "0 \<le> doy" and "doy \<le> (if leapYear (y + 1) then 365 else 364)"
proof -
  define era where "era = z div 146097"
  define doe where "doe = z mod 146097"
  define c where "c = min 3 (doe div 36524)"
  define r1 where "r1 = doe - c * 36524"
  define q where "q = r1 div 1461"
  define r2 where "r2 = r1 mod 1461"
  define a where "a = min 3 (r2 div 365)"
  have y: "y = era * 400 + c * 100 + q * 4 + a" and doy: "doy = r2 - a * 365"
    using assms
    by (simp_all add: marchYearDay_def Let_def era_def doe_def c_def r1_def q_def r2_def a_def)
  have z: "z = era * 146097 + doe" by (simp add: era_def doe_def)
  have doe: "0 \<le> doe" "doe < 146097" by (simp_all add: doe_def)
  have c: "0 \<le> c" "c \<le> 3" using doe unfolding c_def by arith+
  have r1: "0 \<le> r1" "r1 \<le> 36524" "c < 3 \<longrightarrow> r1 < 36524"
    using doe unfolding r1_def c_def by arith+
  have r1q: "r1 = q * 1461 + r2" by (simp add: q_def r2_def)
  have r2: "0 \<le> r2" "r2 < 1461" by (simp_all add: r2_def)
  have q: "0 \<le> q" "q \<le> 24" using r1 unfolding q_def by arith+
  have a: "0 \<le> a" "a \<le> 3" using r2 unfolding a_def by arith+
  have d0: "0 \<le> doy" "doy \<le> 365" "a < 3 \<longrightarrow> doy < 365"
    using r2 unfolding doy a_def by arith+
  show "0 \<le> doy" by (rule d0)
  have y4: "y div 4 = era * 100 + c * 25 + q" using a unfolding y by arith
  have y100: "y div 100 = era * 4 + c" using a q unfolding y by arith
  have y400: "y div 400 = era" using a q c unfolding y by arith
  show "z = 365 * y + y div 4 - y div 100 + y div 400 + doy"
    unfolding y4 y100 y400 unfolding y z using r1q doy r1_def by simp
  show "doy \<le> (if leapYear (y + 1) then 365 else 364)"
  proof (cases "doy = 365")
    case False
    then show ?thesis using d0 by simp
  next
    case True
    then have a3: "a = 3" using d0 a by arith
    then have r2v: "r2 = 1460" using True doy by simp
    have "leapYear (y + 1)"
    proof (cases "q = 24")
      case True
      then have "r1 = 36524" using r1q r2v by simp
      then have "c = 3" using r1 c by arith
      then have "y + 1 = (era + 1) * 400" using y a3 True by simp
      then show ?thesis by (simp add: leapYear_def)
    next
      case False
      then have q23: "q \<le> 23" using q by simp
      have e: "y + 1 = (era * 4 + c) * 100 + (q + 1) * 4" using y a3 by simp
      have "(y + 1) mod 4 = 0" unfolding e by arith
      moreover have "(y + 1) mod 100 \<noteq> 0" using q q23 unfolding e by arith
      ultimately show ?thesis by (simp add: leapYear_def)
    qed
    then show ?thesis using True by simp
  qed
qed

lemma daysBeforeMonth_table:
  "daysBeforeMonth y 1 = 0"
  "daysBeforeMonth y 2 = 31"
  "daysBeforeMonth y 3 = 59 + (if leapYear y then 1 else 0)"
  "daysBeforeMonth y 4 = 90 + (if leapYear y then 1 else 0)"
  "daysBeforeMonth y 5 = 120 + (if leapYear y then 1 else 0)"
  "daysBeforeMonth y 6 = 151 + (if leapYear y then 1 else 0)"
  "daysBeforeMonth y 7 = 181 + (if leapYear y then 1 else 0)"
  "daysBeforeMonth y 8 = 212 + (if leapYear y then 1 else 0)"
  "daysBeforeMonth y 9 = 243 + (if leapYear y then 1 else 0)"
  "daysBeforeMonth y 10 = 273 + (if leapYear y then 1 else 0)"
  "daysBeforeMonth y 11 = 304 + (if leapYear y then 1 else 0)"
  "daysBeforeMonth y 12 = 334 + (if leapYear y then 1 else 0)"
  by (simp_all add: daysBeforeMonth_def daysInMonth_def upto_rec1)

lemma div_step:
  assumes "0 < (n::int)"
  shows "y div n = (y - 1) div n + (if y mod n = 0 then 1 else 0)"
proof (cases "y mod n = 0")
  case True
  have "y = n * (y div n) + y mod n" by simp
  then have "y - 1 = n * (y div n - 1) + (n - 1)" using True by (simp add: algebra_simps)
  then have "(y - 1) div n = y div n - 1"
    using assms by (intro int_div_pos_eq [of "y - 1" n "y div n - 1" "n - 1"]) simp_all
  then show ?thesis using True by simp
next
  case False
  have r: "0 \<le> y mod n" "y mod n < n" using assms by simp_all
  have "y = n * (y div n) + y mod n" by simp
  then have "y - 1 = n * (y div n) + (y mod n - 1)" by simp
  then have "(y - 1) div n = y div n"
    using assms r False by (intro int_div_pos_eq [of "y - 1" n "y div n" "y mod n - 1"]) simp_all
  then show ?thesis using False by simp
qed

lemma mod_chain:
  "(y::int) mod 400 = 0 \<Longrightarrow> y mod 100 = 0"
  "(y::int) mod 100 = 0 \<Longrightarrow> y mod 4 = 0"
  by presburger+

lemma leap_days_step:
  "y div 4 - y div 100 + y div 400 =
     (y - 1) div 4 - (y - 1) div 100 + (y - 1) div 400 + (if leapYear y then 1 else 0)"
proof -
  have a: "y div 4 = (y - 1) div 4 + (if y mod 4 = 0 then 1 else 0)"
    and b: "y div 100 = (y - 1) div 100 + (if y mod 100 = 0 then 1 else 0)"
    and c: "y div 400 = (y - 1) div 400 + (if y mod 400 = 0 then 1 else 0)"
    by (rule div_step, simp)+
  show ?thesis
    unfolding a b c leapYear_def using mod_chain [of y] by auto
qed

text \<open>The day of a year that begins in March, as month and day of the month.\<close>

lemma monthDay_sound:
  assumes "0 \<le> doy" and "doy \<le> 365" and "monthDay doy = (m, d)"
  shows "(3 \<le> m \<and> m \<le> 12 \<and> daysBeforeMonth y m + d = doy + 60 + (if leapYear y then 1 else 0)
            \<and> 1 \<le> d \<and> d \<le> daysInMonth y m)
         \<or> (m = 1 \<and> d = doy - 305 \<and> 1 \<le> d \<and> d \<le> 31)
         \<or> (m = 2 \<and> d = doy - 336 \<and> 1 \<le> d \<and> d \<le> 29)"
proof -
  define mp where "mp = (5 * doy + 2) div 153"
  have m: "m = (if mp < 10 then mp + 3 else mp - 9)"
    and d: "d = doy - (153 * mp + 2) div 5 + 1"
    using assms(3) by (auto simp add: monthDay_def Let_def mp_def)
  have "0 \<le> mp" "mp \<le> 11" using assms(1,2) unfolding mp_def by arith+
  then have "mp = 0 \<or> mp = 1 \<or> mp = 2 \<or> mp = 3 \<or> mp = 4 \<or> mp = 5 \<or> mp = 6
    \<or> mp = 7 \<or> mp = 8 \<or> mp = 9 \<or> mp = 10 \<or> mp = 11"
    by arith
  then consider "mp = 0" | "mp = 1" | "mp = 2" | "mp = 3" | "mp = 4" | "mp = 5" | "mp = 6"
    | "mp = 7" | "mp = 8" | "mp = 9" | "mp = 10" | "mp = 11"
    by blast
  then show ?thesis
  proof cases
    case 1
    then have "0 \<le> doy" "doy \<le> 30" using assms(1) unfolding mp_def by arith+
    then show ?thesis using 1 by (simp add: m d daysBeforeMonth_table daysInMonth_def)
  next
    case 2
    then have "31 \<le> doy" "doy \<le> 60" unfolding mp_def by arith+
    then show ?thesis using 2 by (simp add: m d daysBeforeMonth_table daysInMonth_def)
  next
    case 3
    then have "61 \<le> doy" "doy \<le> 91" unfolding mp_def by arith+
    then show ?thesis using 3 by (simp add: m d daysBeforeMonth_table daysInMonth_def)
  next
    case 4
    then have "92 \<le> doy" "doy \<le> 121" unfolding mp_def by arith+
    then show ?thesis using 4 by (simp add: m d daysBeforeMonth_table daysInMonth_def)
  next
    case 5
    then have "122 \<le> doy" "doy \<le> 152" unfolding mp_def by arith+
    then show ?thesis using 5 by (simp add: m d daysBeforeMonth_table daysInMonth_def)
  next
    case 6
    then have "153 \<le> doy" "doy \<le> 183" unfolding mp_def by arith+
    then show ?thesis using 6 by (simp add: m d daysBeforeMonth_table daysInMonth_def)
  next
    case 7
    then have "184 \<le> doy" "doy \<le> 213" unfolding mp_def by arith+
    then show ?thesis using 7 by (simp add: m d daysBeforeMonth_table daysInMonth_def)
  next
    case 8
    then have "214 \<le> doy" "doy \<le> 244" unfolding mp_def by arith+
    then show ?thesis using 8 by (simp add: m d daysBeforeMonth_table daysInMonth_def)
  next
    case 9
    then have "245 \<le> doy" "doy \<le> 274" unfolding mp_def by arith+
    then show ?thesis using 9 by (simp add: m d daysBeforeMonth_table daysInMonth_def)
  next
    case 10
    then have "275 \<le> doy" "doy \<le> 305" unfolding mp_def by arith+
    then show ?thesis using 10 by (simp add: m d daysBeforeMonth_table daysInMonth_def)
  next
    case 11
    then have "306 \<le> doy" "doy \<le> 336" unfolding mp_def by arith+
    then show ?thesis using 11 by (simp add: m d)
  next
    case 12
    then have "337 \<le> doy" using assms(2) unfolding mp_def by arith
    then show ?thesis using 12 assms(2) by (simp add: m d)
  qed
qed

text \<open>
  The fields that \<open>civilFromDays\<close> gives for a day are a date of the calendar, and the day
  is the number of that date.
\<close>

lemma civilFromDays_sound:
  assumes "civilFromDays n = (y, m, d)"
  shows "1 \<le> m \<and> m \<le> 12 \<and> 1 \<le> d \<and> d \<le> daysInMonth y m \<and> dayNumber y m d = n"
proof -
  obtain yM doy where yd: "marchYearDay (n + 719468) = (yM, doy)"
    by (cases "marchYearDay (n + 719468)")
  obtain m' d' where md: "monthDay doy = (m', d')"
    by (cases "monthDay doy")
  have y: "y = yM + (if m \<le> 2 then 1 else 0)" and m: "m' = m" and d: "d' = d"
    using assms by (auto simp add: civilFromDays_def Let_def yd md)
  note a = marchYearDay_sound [OF yd]
  have doy: "0 \<le> doy" "doy \<le> 365" using a(2,3) by (simp_all split: if_splits)
  have n: "n = 365 * yM + yM div 4 - yM div 100 + yM div 400 + doy - 719468"
    using a(1) by simp
  note b = monthDay_sound [OF doy md [unfolded m d], of yM]
  from b consider
      (march) "3 \<le> m" "m \<le> 12"
        "daysBeforeMonth yM m + d = doy + 60 + (if leapYear yM then 1 else 0)"
        "1 \<le> d" "d \<le> daysInMonth yM m"
    | (jan) "m = 1" "d = doy - 305" "1 \<le> d" "d \<le> 31"
    | (feb) "m = 2" "d = doy - 336" "1 \<le> d" "d \<le> 29"
    by blast
  then show ?thesis
  proof cases
    case march
    then have yy: "y = yM" using y by simp
    have "dayNumber y m d = daysBeforeYear yM + (daysBeforeMonth yM m + d) - 1"
      by (simp add: dayNumber_def yy)
    also have "\<dots> = n"
      using leap_days_step [of yM] by (simp add: march(3) n daysBeforeYear_def split: if_splits)
    finally show ?thesis using march by (simp add: yy)
  next
    case jan
    then have yy: "y = yM + 1" using y by simp
    have "dayNumber y m d = n"
      unfolding n by (simp add: dayNumber_def yy jan daysBeforeYear_def daysBeforeMonth_table)
    then show ?thesis using jan by (simp add: daysInMonth_def)
  next
    case feb
    then have yy: "y = yM + 1" using y by simp
    have "dayNumber y m d = n"
      unfolding n by (simp add: dayNumber_def yy feb daysBeforeYear_def daysBeforeMonth_table)
    moreover have "d \<le> daysInMonth y m"
      using a(3) feb by (simp add: daysInMonth_def yy split: if_splits)
    ultimately show ?thesis using feb by simp
  qed
qed

lemma jst_date_sound:
  "jstDay t \<le> daysInMonth (jstYear t) (jstMonth t)
   \<and> dayNumber (jstYear t) (jstMonth t) (jstDay t) = utcPlus9 t div 86400000"
  using civilFromDays_sound [of "utcPlus9 t div 86400000" "jstYear t" "jstMonth t" "jstDay t"]
  by (simp add: jstYear_def jstMonth_def jstDay_def)

lemma zeroPadded_2: "zeroPadded 2 n = [digit (n div 10), digit n]"
proof -
  have "zeroPadded (Suc (Suc 0)) n = [digit (n div 10), digit n]" by simp
  then show ?thesis by (simp only: numeral_2_eq_2)
qed

lemma zeroPadded_4:
  "zeroPadded 4 n = [digit (n div 1000), digit (n div 100), digit (n div 10), digit n]"
proof -
  have "zeroPadded (Suc (Suc (Suc (Suc 0)))) n =
          [digit (n div 1000), digit (n div 100), digit (n div 10), digit n]"
    by (simp add: div_mult2_eq [symmetric])
  moreover have "(4::nat) = Suc (Suc (Suc (Suc 0)))" by simp
  ultimately show ?thesis by (simp only:)
qed

lemma decimal_four_digits:
  assumes "1000 \<le> n" and "n \<le> 9999"
  shows "decimal n = zeroPadded 4 n"
proof -
  have a: "\<not> n < 10" "\<not> n div 10 < 10" "\<not> n div 100 < 10" "n div 1000 < 10"
    using assms by arith+
  have "decimal n = decimal (n div 10) @ [digit n]"
    using a by (subst decimal.simps) simp
  also have "decimal (n div 10) = decimal (n div 100) @ [digit (n div 10)]"
    using a by (subst decimal.simps) (simp add: div_mult2_eq [symmetric])
  also have "decimal (n div 100) = decimal (n div 1000) @ [digit (n div 100)]"
    using a by (subst decimal.simps) (simp add: div_mult2_eq [symmetric])
  also have "decimal (n div 1000) = [digit (n div 1000)]"
    using a by (subst decimal.simps) simp
  finally show ?thesis
    by (simp add: zeroPadded_4)
qed


lemma twoDigit_zeroPadded: "twoDigit v = zeroPadded 2 (nat v)"
  by (simp add: twoDigit_def zeroPadded_2)

lemma parts_fold:
  "foldl (\<lambda>acc p. if fst p \<noteq> ''literal'' then acc(fst p \<mapsto> snd p) else acc)
                    Map.empty (formatToParts date) =
    [''year'' \<mapsto> numericYear (tokyoYear date), ''month'' \<mapsto> twoDigit (tokyoMonth date),
     ''day'' \<mapsto> twoDigit (tokyoDay date), ''hour'' \<mapsto> twoDigit (tokyoHour date),
     ''minute'' \<mapsto> twoDigit (tokyoMinute date)]"
  by (simp add: formatToParts_def)

lemma padStart_twoDigit: "padStart 2 ''0'' (twoDigit v) = twoDigit v"
  by (simp add: padStart_def twoDigit_def)

lemma formatJstDateTime_parts:
  "formatJstDateTime t =
     numericYear (tokyoYear t) @ ''/'' @ twoDigit (tokyoMonth t) @ ''/'' @ twoDigit (tokyoDay t)
       @ '' '' @ twoDigit (tokyoHour t) @ '':'' @ twoDigit (tokyoMinute t) @ '' (JST)''"
  unfolding formatJstDateTime_def parts_fold Let_def
  by (simp add: template_def nullish_else_def padStart_twoDigit)

lemma length_zeroPadded: "length (zeroPadded w n) = w"
  by (induction w arbitrary: n) simp_all

lemma tokyo_month_day_bounds:
  "1 \<le> tokyoMonth t \<and> tokyoMonth t \<le> 12 \<and> 1 \<le> tokyoDay t \<and> tokyoDay t \<le> 31"
  using civilFromDays_bounds [of "tokyoLocalMs t div 86400000"]
  by (simp add: tokyoMonth_def tokyoDay_def)

lemma formatJstDateTime_zeroPadded:
  assumes "1000 \<le> tokyoYear t" and "tokyoYear t \<le> 9999"
  shows "formatJstDateTime t =
     zeroPadded 4 (nat (tokyoYear t)) @ ''/'' @ zeroPadded 2 (nat (tokyoMonth t)) @ ''/''
       @ zeroPadded 2 (nat (tokyoDay t)) @ '' '' @ zeroPadded 2 (nat (tokyoHour t)) @ '':''
       @ zeroPadded 2 (nat (tokyoMinute t)) @ '' (JST)''"
proof -
  have "numericYear (tokyoYear t) = zeroPadded 4 (nat (tokyoYear t))"
    using assms by (simp add: numericYear_def decimal_four_digits)
  then show ?thesis
    by (simp only: formatJstDateTime_parts twoDigit_zeroPadded)
qed


lemma civil_20240315: "civilFromDays 19797 = (2024, 3, 15)"
  by code_simp

lemma civil_100000101: "civilFromDays 2932897 = (10000, 1, 1)"
  by code_simp

lemma civil_19480601: "civilFromDays (-7884) = (1948, 6, 1)"
  by code_simp

lemma tokyo_is_jst:
  assumes "tokyoOffsetMs t = 32400000"
  shows "tokyoYear t = jstYear t" and "tokyoMonth t = jstMonth t" and "tokyoDay t = jstDay t"
    and "tokyoHour t = jstHour t" and "tokyoMinute t = jstMinute t"
  using assms
  by (simp_all add: tokyoYear_def tokyoMonth_def tokyoDay_def tokyoHour_def tokyoMinute_def
      jstYear_def jstMonth_def jstDay_def jstHour_def jstMinute_def tokyoLocalMs_def utcPlus9_def)

lemma formatJstDateTime_20240315: "formatJstDateTime 1710480600000 = ''2024/03/15 14:30 (JST)''"
  by (simp add: formatJstDateTime_parts tokyoYear_def tokyoMonth_def tokyoDay_def tokyoHour_def
      tokyoMinute_def tokyoLocalMs_def tokyoOffsetMs_def civil_20240315 numericYear_def
      decimal.simps twoDigit_def digit_def)

text \<open>
  The first version. At every instant at which \<^verbatim>\<open>Asia/Tokyo\<close> is nine hours ahead of UTC,
  as it is at every instant from 1951-09-08T15:00:00Z on, and whose year at UTC+9 has four
  digits, \<open>formatJstDateTime\<close> of the first version gives the text
  \<^verbatim>\<open>YYYY/MM/DD HH:MM (JST)\<close> of 22 characters: the year, month, day, hour and minute of
  the instant at UTC+9, the year in four digits and the others in two, padded with zeros.
  Year, month and day are the date of the Gregorian calendar whose number is the day of
  the instant at UTC+9, the month from 1 to 12 and the day from 1 to the length of the
  month; the hour is from 0 to 23 and the minute from 0 to 59. The text is a function of
  the instant alone. The instant 2024-03-15T05:30:00Z gives \<^verbatim>\<open>2024/03/15 14:30 (JST)\<close>.
\<close>

theorem formatJstDateTime_layout:
  "(tokyoOffsetMs t = 32400000 \<and> 1000 \<le> jstYear t \<and> jstYear t \<le> 9999 \<longrightarrow>
      formatJstDateTime t =
        zeroPadded 4 (nat (jstYear t)) @ ''/'' @ zeroPadded 2 (nat (jstMonth t)) @ ''/''
          @ zeroPadded 2 (nat (jstDay t)) @ '' '' @ zeroPadded 2 (nat (jstHour t)) @ '':''
          @ zeroPadded 2 (nat (jstMinute t)) @ '' (JST)''
      \<and> length (formatJstDateTime t) = 22
      \<and> 1 \<le> jstMonth t \<and> jstMonth t \<le> 12
      \<and> 1 \<le> jstDay t \<and> jstDay t \<le> daysInMonth (jstYear t) (jstMonth t)
      \<and> dayNumber (jstYear t) (jstMonth t) (jstDay t) = utcPlus9 t div 86400000
      \<and> 0 \<le> jstHour t \<and> jstHour t \<le> 23 \<and> 0 \<le> jstMinute t \<and> jstMinute t \<le> 59)
   \<and> (-577962000000 \<le> t \<longrightarrow> tokyoOffsetMs t = 32400000)
   \<and> formatJstDateTime 1710480600000 = ''2024/03/15 14:30 (JST)''"
proof (intro conjI impI)
  assume a: "tokyoOffsetMs t = 32400000 \<and> 1000 \<le> jstYear t \<and> jstYear t \<le> 9999"
  then have off: "tokyoOffsetMs t = 32400000" by simp
  note jst = tokyo_is_jst [OF off]
  have y: "1000 \<le> tokyoYear t" "tokyoYear t \<le> 9999"
    using a by (simp_all add: jst)
  show f: "formatJstDateTime t =
        zeroPadded 4 (nat (jstYear t)) @ ''/'' @ zeroPadded 2 (nat (jstMonth t)) @ ''/''
          @ zeroPadded 2 (nat (jstDay t)) @ '' '' @ zeroPadded 2 (nat (jstHour t)) @ '':''
          @ zeroPadded 2 (nat (jstMinute t)) @ '' (JST)''"
    using formatJstDateTime_zeroPadded [OF y] by (simp only: jst)
  show "length (formatJstDateTime t) = 22"
    by (simp add: f length_zeroPadded)
  show "1 \<le> jstMonth t" "jstMonth t \<le> 12" "1 \<le> jstDay t"
    using tokyo_month_day_bounds [of t] by (simp_all add: jst)
  show "jstDay t \<le> daysInMonth (jstYear t) (jstMonth t)"
    and "dayNumber (jstYear t) (jstMonth t) (jstDay t) = utcPlus9 t div 86400000"
    using jst_date_sound [of t] by simp_all
  show "0 \<le> jstHour t" "jstHour t \<le> 23" "0 \<le> jstMinute t" "jstMinute t \<le> 59"
    by (simp_all add: jstHour_def jstMinute_def)
next
  assume "-577962000000 \<le> t"
  then show "tokyoOffsetMs t = 32400000"
    by (simp add: tokyoOffsetMs_def)
next
  show "formatJstDateTime 1710480600000 = ''2024/03/15 14:30 (JST)''"
    by (rule formatJstDateTime_20240315)
qed

text \<open>The instant of the specification, 2024-03-15T05:30:00Z, in the general statement.\<close>

theorem formatJstDateTime_layout_witness:
  "tokyoOffsetMs 1710480600000 = 32400000
   \<and> jstYear 1710480600000 = 2024 \<and> jstMonth 1710480600000 = 3 \<and> jstDay 1710480600000 = 15
   \<and> jstHour 1710480600000 = 14 \<and> jstMinute 1710480600000 = 30
   \<and> formatJstDateTime 1710480600000 =
        zeroPadded 4 2024 @ ''/'' @ zeroPadded 2 3 @ ''/'' @ zeroPadded 2 15 @ '' ''
          @ zeroPadded 2 14 @ '':'' @ zeroPadded 2 30 @ '' (JST)''
   \<and> length (formatJstDateTime 1710480600000) = 22"
proof -
  have j: "jstYear 1710480600000 = 2024" "jstMonth 1710480600000 = 3" "jstDay 1710480600000 = 15"
    "jstHour 1710480600000 = 14" "jstMinute 1710480600000 = 30"
    by (simp_all add: jstYear_def jstMonth_def jstDay_def jstHour_def jstMinute_def utcPlus9_def
        civil_20240315)
  have o: "tokyoOffsetMs 1710480600000 = 32400000"
    by (simp add: tokyoOffsetMs_def)
  show ?thesis
    using formatJstDateTime_layout [of 1710480600000]
    by (simp add: j o zeroPadded_2 zeroPadded_4 digit_def)
qed

text \<open>
  Outside these instants the text of the first version is another. 9999-12-31T15:00:00Z is
  the first instant of the year 10000 at UTC+9, and the year is printed with five digits.
  1948-06-01T00:00:00Z is 09:00 at UTC+9, but \<^verbatim>\<open>Asia/Tokyo\<close> was on daylight saving
  time, ten hours ahead of UTC, and the text says 10:00.
\<close>

theorem formatJstDateTime_outside_layout:
  "formatJstDateTime 253402268400000 = ''10000/01/01 00:00 (JST)''
   \<and> length (formatJstDateTime 253402268400000) = 23
   \<and> formatJstDateTime (-681177600000) = ''1948/06/01 10:00 (JST)''
   \<and> zeroPadded 2 (nat (jstHour (-681177600000))) = ''09''"
proof -
  have a: "formatJstDateTime 253402268400000 = ''10000/01/01 00:00 (JST)''"
    by (simp add: formatJstDateTime_parts tokyoYear_def tokyoMonth_def tokyoDay_def tokyoHour_def
        tokyoMinute_def tokyoLocalMs_def tokyoOffsetMs_def civil_100000101 numericYear_def
        decimal.simps twoDigit_def digit_def)
  have b: "formatJstDateTime (-681177600000) = ''1948/06/01 10:00 (JST)''"
    by (simp add: formatJstDateTime_parts tokyoYear_def tokyoMonth_def tokyoDay_def tokyoHour_def
        tokyoMinute_def tokyoLocalMs_def tokyoOffsetMs_def civil_19480601 numericYear_def
        decimal.simps twoDigit_def digit_def)
  have c: "zeroPadded 2 (nat (jstHour (-681177600000))) = ''09''"
    by (simp add: jstHour_def utcPlus9_def zeroPadded_2 digit_def)
  show ?thesis
    by (simp add: a b c)
qed

text \<open>
  The second version pastes the texts of five formatters together; with formatters that
  print the digits alone it gives the text of the first version.
\<close>

lemma formatJstDateTime_v2_digitsOnly: "formatJstDateTime_v2 digitsOnly t = formatJstDateTime t"
  by (simp add: formatJstDateTime_v2_def digitsOnly_def formatJstDateTime_parts)

lemma civil_20240316: "civilFromDays 19798 = (2024, 3, 16)"
  by code_simp

text \<open>The second version with the formatters of the runtime, at two instants.\<close>

lemma formatJstDateTime_v2_20240315:
  "formatJstDateTime_v2 formatField 1710480600000 =
     ''2024'' @ [CHR 0xE5, CHR 0xB9, CHR 0xB4] @ ''/03'' @ [CHR 0xE6, CHR 0x9C, CHR 0x88]
       @ ''/15'' @ [CHR 0xE6, CHR 0x97, CHR 0xA5] @ '' 14'' @ [CHR 0xE6, CHR 0x99, CHR 0x82]
       @ '':30 (JST)''"
  by (simp add: formatJstDateTime_v2_def formatField_def tokyoYear_def tokyoMonth_def
      tokyoDay_def tokyoHour_def tokyoMinute_def tokyoLocalMs_def tokyoOffsetMs_def
      civil_20240315 numericYear_def decimal.simps twoDigit_def digit_def)

lemma formatJstDateTime_v2_20240316:
  "formatJstDateTime_v2 formatField 1710515100000 =
     ''2024'' @ [CHR 0xE5, CHR 0xB9, CHR 0xB4] @ ''/03'' @ [CHR 0xE6, CHR 0x9C, CHR 0x88]
       @ ''/16'' @ [CHR 0xE6, CHR 0x97, CHR 0xA5] @ '' 00'' @ [CHR 0xE6, CHR 0x99, CHR 0x82]
       @ '':5 (JST)''"
  by (simp add: formatJstDateTime_v2_def formatField_def tokyoYear_def tokyoMonth_def
      tokyoDay_def tokyoHour_def tokyoMinute_def tokyoLocalMs_def tokyoOffsetMs_def
      civil_20240316 numericYear_def decimal.simps twoDigit_def digit_def)

text \<open>
  C3. The date line is to be \<^verbatim>\<open>YYYY/MM/DD HH:MM (JST)\<close> in both versions, and
  \<^verbatim>\<open>2024/03/15 14:30 (JST)\<close> at the instant 2024-03-15T05:30:00Z. The first version
  gives that text at that instant. The second version, with the formatters of the runtime,
  gives a text of 34 bytes in which the year, the month, the day and the hour are each
  followed by their unit; and at 2024-03-15T15:05:00Z, five minutes after midnight at
  UTC+9, it prints the minute as the single digit 5.
\<close>

theorem formatJstDateTime_v2_units:
  "formatJstDateTime_v2 formatField 1710480600000 =
     ''2024'' @ [CHR 0xE5, CHR 0xB9, CHR 0xB4] @ ''/03'' @ [CHR 0xE6, CHR 0x9C, CHR 0x88]
       @ ''/15'' @ [CHR 0xE6, CHR 0x97, CHR 0xA5] @ '' 14'' @ [CHR 0xE6, CHR 0x99, CHR 0x82]
       @ '':30 (JST)''
   \<and> formatJstDateTime_v2 formatField 1710480600000 \<noteq> ''2024/03/15 14:30 (JST)''
   \<and> length (formatJstDateTime_v2 formatField 1710480600000) = 34
   \<and> formatJstDateTime 1710480600000 = ''2024/03/15 14:30 (JST)''
   \<and> formatJstDateTime_v2 formatField 1710515100000 =
     ''2024'' @ [CHR 0xE5, CHR 0xB9, CHR 0xB4] @ ''/03'' @ [CHR 0xE6, CHR 0x9C, CHR 0x88]
       @ ''/16'' @ [CHR 0xE6, CHR 0x97, CHR 0xA5] @ '' 00'' @ [CHR 0xE6, CHR 0x99, CHR 0x82]
       @ '':5 (JST)''"
  by (simp add: formatJstDateTime_v2_20240315 formatJstDateTime_v2_20240316
      formatJstDateTime_20240315)

text \<open>
  The message that the second handler publishes for an entry of that instant carries this
  text as its date line.
\<close>

lemma buildMessage_v2_date_line:
  "buildMessage_v2 formatField ttl 1710480600000 =
     join [CHR 0x0A]
       [announceLine, [], detailsHeader, titlePrefix @ ttl,
        datePrefix @ ''2024'' @ [CHR 0xE5, CHR 0xB9, CHR 0xB4] @ ''/03''
          @ [CHR 0xE6, CHR 0x9C, CHR 0x88] @ ''/15'' @ [CHR 0xE6, CHR 0x97, CHR 0xA5] @ '' 14''
          @ [CHR 0xE6, CHR 0x99, CHR 0x82] @ '':30 (JST)'']"
  by (simp add: buildMessage_v2_def formatJstDateTime_v2_20240315)

end
